theory Spec2Isabelle
  imports Main "HOL-Library.Word"
begin

section \<open>The C library functions used by cudaMemTest.c\<close>

text \<open>
  A C string is the list of its characters before the terminating NUL, so \<open>strlen\<close> is
  \<open>length\<close> and a pointer into a string (\<open>&s[k]\<close>) is \<open>drop k s\<close>. The argument vector is
  the list \<open>argv\<close> with \<open>argc = length argv\<close>; \<open>argv ! 0\<close> is the program name. Values of the C
  type \<open>int\<close> are modelled as \<open>int\<close>, values of \<open>size_t\<close> as 64-bit words.
\<close>

text \<open>\<open>tolower\<close> in the C locale: only \<open>A\<close> .. \<open>Z\<close> (65 .. 90) are mapped, by adding 32.\<close>

definition tolower :: "char \<Rightarrow> char" where
  "tolower c = (let n = (of_char c :: nat) in if 65 \<le> n \<and> n \<le> 90 then char_of (n + 32) else c)"

text \<open>
  \<open>strncasecmp s1 s2 n\<close> compares at most \<open>n\<close> characters, ignoring case, and stops at the end
  of either string (the NUL, character code 0). The result is the difference of the first
  pair of lowered characters that differ, 0 when there is none.
\<close>

fun strncasecmp :: "string \<Rightarrow> string \<Rightarrow> nat \<Rightarrow> int" where
  "strncasecmp [] [] n = 0"
| "strncasecmp [] (c2 # s2) n = (if n = 0 then 0 else - int (of_char (tolower c2)))"
| "strncasecmp (c1 # s1) [] n = (if n = 0 then 0 else int (of_char (tolower c1)))"
| "strncasecmp (c1 # s1) (c2 # s2) n =
     (if n = 0 then 0
      else if tolower c1 = tolower c2 then strncasecmp s1 s2 (n - 1)
      else int (of_char (tolower c1)) - int (of_char (tolower c2)))"

text \<open>\<open>strchr s c\<close>: the offset of the first occurrence of \<open>c\<close> in \<open>s\<close>, \<open>None\<close> for the null pointer.\<close>

fun strchr :: "string \<Rightarrow> char \<Rightarrow> nat option" where
  "strchr [] c = None"
| "strchr (x # xs) c = (if x = c then Some 0 else map_option Suc (strchr xs c))"

text \<open>
  \<open>atoi\<close>: skip white space, read an optional sign, then the longest run of decimal digits.
  In glibc \<open>atoi s\<close> is \<open>(int) strtol (s, NULL, 10)\<close>: the value saturates at the range of
  \<open>long\<close> (64 bits) and is then truncated to the 32 bits of \<open>int\<close>.
\<close>

definition isspace :: "char \<Rightarrow> bool" where
  "isspace c = (let n = (of_char c :: nat) in n = 32 \<or> (9 \<le> n \<and> n \<le> 13))"

definition isdigit :: "char \<Rightarrow> bool" where
  "isdigit c = (let n = (of_char c :: nat) in 48 \<le> n \<and> n \<le> 57)"

fun digits_value :: "string \<Rightarrow> int \<Rightarrow> int" where
  "digits_value [] acc = acc"
| "digits_value (c # cs) acc =
     (if isdigit c then digits_value cs (acc * 10 + (int (of_char c) - 48)) else acc)"

definition strtol10 :: "string \<Rightarrow> int" where
  "strtol10 s =
     (let t = dropWhile isspace s;
          v = (case t of
                 [] \<Rightarrow> 0
               | c # cs \<Rightarrow>
                   if c = CHR ''-'' then - digits_value cs 0
                   else if c = CHR ''+'' then digits_value cs 0
                   else digits_value t 0)
      in max (- (2 ^ 63)) (min (2 ^ 63 - 1) v))"

definition atoi :: "string \<Rightarrow> int" where
  "atoi s = signed_take_bit 31 (strtol10 s)"

section \<open>The argument lexer\<close>

text \<open>The loop of \<open>stringRemoveDelimiter\<close>: the number of leading delimiter characters.\<close>

fun leading_delimiters :: "char \<Rightarrow> string \<Rightarrow> int" where
  "leading_delimiters delimiter [] = 0"
| "leading_delimiters delimiter (c # cs) =
     (if c = delimiter then 1 + leading_delimiters delimiter cs else 0)"

definition stringRemoveDelimiter :: "char \<Rightarrow> string \<Rightarrow> int" where
  "stringRemoveDelimiter delimiter string =
     (let string_start = leading_delimiters delimiter string
      in if string_start \<ge> int (length string) - 1 then 0 else string_start)"

text \<open>
  The body of the \<open>for\<close> loop of \<open>checkCmdLineFlag\<close>, run over \<open>argv[1] .. argv[argc - 1]\<close> with
  the flag \<open>bFound\<close> as the loop state.
\<close>

fun checkCmdLineFlag_loop :: "string list \<Rightarrow> string \<Rightarrow> bool \<Rightarrow> bool" where
  "checkCmdLineFlag_loop [] string_ref bFound = bFound"
| "checkCmdLineFlag_loop (arg # args) string_ref bFound =
     (let string_start = stringRemoveDelimiter (CHR ''-'') arg;
          string_argv = drop (nat string_start) arg;
          argv_length = (case strchr string_argv (CHR ''='') of
                           None \<Rightarrow> int (length string_argv)
                         | Some equal_pos \<Rightarrow> int equal_pos);
          length_ref = int (length string_ref)
      in if length_ref = argv_length \<and> strncasecmp string_argv string_ref (nat length_ref) = 0
         then checkCmdLineFlag_loop args string_ref True
         else checkCmdLineFlag_loop args string_ref bFound)"

definition checkCmdLineFlag :: "string list \<Rightarrow> string \<Rightarrow> bool" where
  "checkCmdLineFlag argv string_ref =
     (if int (length argv) \<ge> 1 then checkCmdLineFlag_loop (drop 1 argv) string_ref False
      else False)"

text \<open>The loop of \<open>getCmdLineArgumentInt\<close>, with \<open>(bFound, value)\<close> as the loop state.\<close>

fun getCmdLineArgumentInt_loop :: "string list \<Rightarrow> string \<Rightarrow> bool \<times> int \<Rightarrow> bool \<times> int" where
  "getCmdLineArgumentInt_loop [] string_ref st = st"
| "getCmdLineArgumentInt_loop (arg # args) string_ref (bFound, val) =
     (let string_start = stringRemoveDelimiter (CHR ''-'') arg;
          string_argv = drop (nat string_start) arg;
          length_ref = int (length string_ref)
      in if strncasecmp string_argv string_ref (nat length_ref) = 0
         then (if length_ref + 1 \<le> int (length string_argv)
               then (let auto_inc = (if string_argv ! nat length_ref = CHR ''='' then 1 else 0)
                     in getCmdLineArgumentInt_loop args string_ref
                          (True, atoi (drop (nat (length_ref + auto_inc)) string_argv)))
               else getCmdLineArgumentInt_loop args string_ref (True, 0))
         else getCmdLineArgumentInt_loop args string_ref (bFound, val))"

definition getCmdLineArgumentInt :: "string list \<Rightarrow> string \<Rightarrow> int" where
  "getCmdLineArgumentInt argv string_ref =
     (let (bFound, val) =
            (if int (length argv) \<ge> 1
             then getCmdLineArgumentInt_loop (drop 1 argv) string_ref (False, - 1)
             else (False, - 1))
      in if bFound then val else 0)"

section \<open>The GPU runtime and the observable behaviour\<close>

text \<open>
  The CUDA runtime is outside the program. A run calls each runtime function at most once, so
  the runtime is a record giving the result of each call from its arguments. For
  \<open>cudaMemGetInfo\<close> the record holds the status together with the contents of the variables
  \<open>free_memory\<close> and \<open>total_memory\<close> after the call; when the status is an error these are
  whatever the uninitialised variables hold.
\<close>

datatype cudaError_t = cudaSuccess | cudaErrorCode nat

record cuda_runtime =
  rt_cudaSetDevice :: "int \<Rightarrow> cudaError_t"
  rt_cudaMemGetInfo :: "cudaError_t \<times> 64 word \<times> 64 word"
  rt_cudaMalloc :: "64 word \<Rightarrow> cudaError_t"
  rt_cudaMemset :: "int \<Rightarrow> 64 word \<Rightarrow> cudaError_t"
  rt_cudaFree :: "cudaError_t"
  rt_cudaGetErrorString :: "cudaError_t \<Rightarrow> string"

text \<open>
  What a run does, in order: one event for each \<open>printf\<close> (standard output), each
  \<open>fprintf(stderr, ...)\<close> and each call of the runtime.
\<close>

datatype event =
    Stdout string
  | Stderr string
  | Call_cudaSetDevice int
  | Call_cudaMemGetInfo
  | Call_cudaMalloc "64 word"
  | Call_cudaMemset int "64 word"
  | Call_cudaFree

definition EXIT_SUCCESS :: int where "EXIT_SUCCESS = 0"
definition EXIT_FAILURE :: int where "EXIT_FAILURE = 1"

definition DEFAULT_ALLOC_MEM_IN_GB :: int where "DEFAULT_ALLOC_MEM_IN_GB = 1"
definition ALLOC_MEM_OPT_STR :: string where "ALLOC_MEM_OPT_STR = ''alloc_mem_gb''"

definition newline :: char where "newline = CHR 0x0A"

text \<open>Decimal output: \<open>%lu\<close> prints a \<open>size_t\<close> as it is, \<open>%ld\<close> reads it as a signed \<open>long\<close>.\<close>

fun show_nat :: "nat \<Rightarrow> string" where
  "show_nat n = (if n < 10 then [char_of (48 + n)] else show_nat (n div 10) @ [char_of (48 + n mod 10)])"

declare show_nat.simps [simp del]

definition format_lu :: "64 word \<Rightarrow> string" where
  "format_lu w = show_nat (unat w)"

definition format_ld :: "64 word \<Rightarrow> string" where
  "format_ld w = (if sint w < 0 then CHR ''-'' # show_nat (nat (- sint w)) else show_nat (nat (sint w)))"

section \<open>The double-precision product \<open>0.1 * free_memory\<close>\<close>

text \<open>
  \<open>0.1 * free_memory\<close> converts \<open>free_memory\<close> to \<open>double\<close>, multiplies by the \<open>double\<close> nearest
  to one tenth and rounds the product; the cast to \<open>size_t\<close> then drops the fraction. A
  \<open>double\<close> (IEEE 754 binary64) keeps 53 significant bits and rounds to the nearest value,
  ties to the even one. The \<open>double\<close> nearest to one tenth is \<open>3602879701896397 / 2^55\<close>
  (bit pattern \<open>0x3FB999999999999A\<close>). All values met here are far from the exponent limits,
  so a positive \<open>double\<close> is a natural number of units \<open>2^-55\<close> or of units 1.
\<close>

fun bitlen :: "nat \<Rightarrow> nat" where
  "bitlen n = (if n = 0 then 0 else Suc (bitlen (n div 2)))"

declare bitlen.simps [simp del]

definition round_to_double :: "nat \<Rightarrow> nat" where
  "round_to_double n =
     (if n < 2 ^ 53 then n
      else (let s = bitlen n - 53;
                q = n div 2 ^ s;
                r = n mod 2 ^ s;
                half = 2 ^ (s - 1)
            in if r < half \<or> (r = half \<and> even q) then q * 2 ^ s else (q + 1) * 2 ^ s))"

definition double_tenth :: nat where
  "double_tenth = 3602879701896397"

definition tenth_of :: "64 word \<Rightarrow> 64 word" where
  "tenth_of free_memory =
     word_of_nat (round_to_double (double_tenth * round_to_double (unat free_memory)) div 2 ^ 55)"

section \<open>The program\<close>

text \<open>Lines 134 to 143 of \<open>main\<close>: the size asked for, before the ceiling is applied.\<close>

definition requested_size_of :: "string list \<Rightarrow> event list \<times> 64 word" where
  "requested_size_of argv =
     (let requested_size = (word_of_int (DEFAULT_ALLOC_MEM_IN_GB * 1000 * 1000 * 1000) :: 64 word)
      in if checkCmdLineFlag argv ALLOC_MEM_OPT_STR
         then (let alloc_mem_gb = (word_of_int (getCmdLineArgumentInt argv ALLOC_MEM_OPT_STR) :: 64 word);
                   out = [Stdout (''alloc '' @ format_ld alloc_mem_gb @ '' '' @ [newline])];
                   alloc_mem_gb = (if alloc_mem_gb = 0 then word_of_int DEFAULT_ALLOC_MEM_IN_GB
                                   else alloc_mem_gb)
               in (out, alloc_mem_gb * 1000 * 1000 * 1000))
         else ([], requested_size))"

text \<open>Lines 146 to 151 of \<open>main\<close>: the ceiling at 90% of the free memory.\<close>

definition max_alloc_size_of :: "64 word \<Rightarrow> 64 word" where
  "max_alloc_size_of free_memory = free_memory - tenth_of free_memory"

definition clamp_size :: "64 word \<Rightarrow> 64 word \<Rightarrow> event list \<times> 64 word" where
  "clamp_size free_memory requested_size =
     (let max_alloc_size = max_alloc_size_of free_memory
      in if requested_size > max_alloc_size
         then ([Stdout (''Invalid allocation amount specified, using '' @ format_lu max_alloc_size
                        @ [newline])], max_alloc_size)
         else ([], requested_size))"

text \<open>Lines 163 to 190 of \<open>main\<close>: allocate, fill, free.\<close>

definition alloc_fill_free :: "cuda_runtime \<Rightarrow> 64 word \<Rightarrow> event list \<times> int" where
  "alloc_fill_free rt requested_size =
     (let err = rt_cudaMalloc rt requested_size
      in if err \<noteq> cudaSuccess
         then ([Call_cudaMalloc requested_size,
                Stderr (''Test failed (error code '' @ rt_cudaGetErrorString rt err @ '')!'' @ [newline])],
               EXIT_FAILURE)
         else (let err = rt_cudaMemset rt 0xf requested_size
               in if err \<noteq> cudaSuccess
                  then ([Call_cudaMalloc requested_size, Call_cudaMemset 0xf requested_size,
                         Stderr (''Test failed in setting mem(error code ''
                                 @ rt_cudaGetErrorString rt err @ '')!'' @ [newline])],
                        EXIT_FAILURE)
                  else (let err = rt_cudaFree rt
                        in if err \<noteq> cudaSuccess
                           then ([Call_cudaMalloc requested_size, Call_cudaMemset 0xf requested_size,
                                  Call_cudaFree,
                                  Stderr (''Failed to free device vector A (error code ''
                                          @ rt_cudaGetErrorString rt err @ '')!'' @ [newline])],
                                 EXIT_FAILURE)
                           else ([Call_cudaMalloc requested_size, Call_cudaMemset 0xf requested_size,
                                  Call_cudaFree,
                                  Stdout (''CUDA memory test PASSED'' @ [newline])],
                                 EXIT_SUCCESS))))"

text \<open>Lines 126 to 190 of \<open>main\<close>: everything after the device has been selected.\<close>

definition main_after_device :: "cuda_runtime \<Rightarrow> string list \<Rightarrow> event list \<times> int" where
  "main_after_device rt argv =
     (let (ret, free_memory, total_memory) = rt_cudaMemGetInfo rt;
          out_query = (if ret = cudaSuccess
                       then [Stdout (''free mem '' @ format_ld free_memory @ '' total mem ''
                                     @ format_ld total_memory @ '' '' @ [newline])]
                       else []);
          (out_request, requested_size) = requested_size_of argv;
          (out_clamp, requested_size) = clamp_size free_memory requested_size;
          (out_test, status) = alloc_fill_free rt requested_size
      in (Call_cudaMemGetInfo # out_query @ out_request @ out_clamp @ out_test, status))"

text \<open>\<open>main\<close>: the events of the run and the exit status.\<close>

definition main :: "cuda_runtime \<Rightarrow> string list \<Rightarrow> event list \<times> int" where
  "main rt argv =
     (if checkCmdLineFlag argv ''help'' \<or> checkCmdLineFlag argv ''?''
      then ([Stdout (''A simple cuda memory testing tool'' @ [newline]),
             Stdout (''Usage --device=n (n >= 0 for deviceID),'' @ [newline]),
             Stdout (''      --'' @ ALLOC_MEM_OPT_STR @ ''=k (allocates k GB)'' @ [newline])],
            EXIT_SUCCESS)
      else if checkCmdLineFlag argv ''device''
      then (let devID = getCmdLineArgumentInt argv ''device'';
                ret = rt_cudaSetDevice rt devID
            in if ret \<noteq> cudaSuccess
               then ([Call_cudaSetDevice devID,
                      Stdout (''Invalid device id or device already in use'' @ [newline])],
                     EXIT_FAILURE)
               else (let (out, status) = main_after_device rt argv
                     in (Call_cudaSetDevice devID # out, status)))
      else ([Stdout (''A simple cuda memory testing tool'' @ [newline]),
             Stdout (''Usage --device=n (n >= 0 for deviceID)'' @ [newline]),
             Stdout (''      --'' @ ALLOC_MEM_OPT_STR @ ''=k (allocates k GB)'' @ [newline])],
            EXIT_SUCCESS))"

section \<open>Observations of a run\<close>

text \<open>
  The lines written to the error stream, the lines written to standard output, and the
  calls of the GPU runtime, each in the order of the run.
\<close>

fun stderr_of :: "event list \<Rightarrow> string list" where
  "stderr_of [] = []"
| "stderr_of (Stderr s # es) = s # stderr_of es"
| "stderr_of (e # es) = stderr_of es"

fun stdout_of :: "event list \<Rightarrow> string list" where
  "stdout_of [] = []"
| "stdout_of (Stdout s # es) = s # stdout_of es"
| "stdout_of (e # es) = stdout_of es"

fun runtime_calls :: "event list \<Rightarrow> event list" where
  "runtime_calls [] = []"
| "runtime_calls (Stdout s # es) = runtime_calls es"
| "runtime_calls (Stderr s # es) = runtime_calls es"
| "runtime_calls (e # es) = e # runtime_calls es"

text \<open>The size that reaches \<open>cudaMalloc\<close>: the requested size after the ceiling.\<close>

definition allocation_size :: "cuda_runtime \<Rightarrow> string list \<Rightarrow> 64 word" where
  "allocation_size rt argv =
     snd (clamp_size (fst (snd (rt_cudaMemGetInfo rt))) (snd (requested_size_of argv)))"

text \<open>
  The number of gigabytes asked for: the value of \<open>alloc_mem_gb\<close> in lines 134 to 143 once
  the default has replaced 0, as the \<open>int\<close> it was read as.
\<close>

definition requested_gb :: "string list \<Rightarrow> int" where
  "requested_gb argv =
     (if checkCmdLineFlag argv ALLOC_MEM_OPT_STR
      then (let alloc_mem_gb = getCmdLineArgumentInt argv ALLOC_MEM_OPT_STR
            in if alloc_mem_gb = 0 then DEFAULT_ALLOC_MEM_IN_GB else alloc_mem_gb)
      else DEFAULT_ALLOC_MEM_IN_GB)"

text \<open>The three conditions \<open>main\<close> branches on before it reaches the memory query.\<close>

definition help_requested :: "string list \<Rightarrow> bool" where
  "help_requested argv = (checkCmdLineFlag argv ''help'' \<or> checkCmdLineFlag argv ''?'')"

definition device_requested :: "string list \<Rightarrow> bool" where
  "device_requested argv = (\<not> help_requested argv \<and> checkCmdLineFlag argv ''device'')"

definition device_selected :: "cuda_runtime \<Rightarrow> string list \<Rightarrow> bool" where
  "device_selected rt argv =
     (device_requested argv
      \<and> rt_cudaSetDevice rt (getCmdLineArgumentInt argv ''device'') = cudaSuccess)"

text \<open>
  A runtime for the examples: device 0 is the only device, it reports 10,000,000,000 bytes
  free of 20,000,000,000, and allocation, fill and free succeed.
\<close>

definition scenario_runtime :: cuda_runtime where
  "scenario_runtime =
     \<lparr>rt_cudaSetDevice = (\<lambda>devID. if devID = 0 then cudaSuccess else cudaErrorCode 101),
      rt_cudaMemGetInfo = (cudaSuccess, 10000000000, 20000000000),
      rt_cudaMalloc = (\<lambda>size. cudaSuccess),
      rt_cudaMemset = (\<lambda>val size. cudaSuccess),
      rt_cudaFree = cudaSuccess,
      rt_cudaGetErrorString =
        (\<lambda>err. if err = cudaSuccess then ''no error''
               else if err = cudaErrorCode 2 then ''out of memory''
               else ''unknown error'')\<rparr>"

section \<open>Properties of the argument lexer\<close>

lemmas lexer_defs =
  checkCmdLineFlag_def getCmdLineArgumentInt_def stringRemoveDelimiter_def tolower_def Let_def
  atoi_def strtol10_def isspace_def isdigit_def

lemma leading_delimiters_replicate:
  "leading_delimiters d (replicate n d @ t) = int n + leading_delimiters d t"
  by (induction n) simp_all

lemma leading_delimiters_none:
  "t = [] \<or> hd t \<noteq> d \<Longrightarrow> leading_delimiters d t = 0"
  by (cases t) auto

lemma strncasecmp_prefix:
  "map tolower s = map tolower r \<Longrightarrow> strncasecmp (s @ rest) r (length r) = 0"
proof (induction s arbitrary: r)
  case Nil
  then show ?case by (cases rest) simp_all
next
  case (Cons c s)
  then obtain c' r' where r: "r = c' # r'" by (cases r) auto
  with Cons show ?case by simp
qed

lemma strchr_notin: "c \<notin> set s \<Longrightarrow> strchr s c = None"
  by (induction s) auto

lemma strchr_first: "c \<notin> set s \<Longrightarrow> strchr (s @ c # v) c = Some (length s)"
  by (induction s) auto

lemma tolower_fixed_dash [simp]: "tolower (CHR ''-'') = CHR ''-''"
  by (simp add: tolower_def)

lemma tolower_fixed_equal [simp]: "tolower (CHR ''='') = CHR ''=''"
  by (simp add: tolower_def)

lemma checkCmdLineFlag_loop_True [simp]: "checkCmdLineFlag_loop args string_ref True = True"
  by (induction args) (simp_all add: Let_def)

lemma stringRemoveDelimiter_dashes:
  assumes "2 \<le> length t" "hd t \<noteq> d"
  shows "stringRemoveDelimiter d (replicate n d @ t) = int n"
proof -
  from assms have "t \<noteq> []" by auto
  then have "leading_delimiters d t = 0" using assms(2) by (simp add: leading_delimiters_none)
  then show ?thesis using assms(1)
    by (simp add: stringRemoveDelimiter_def leading_delimiters_replicate)
qed

text \<open>A token \<open>-...-name\<close> or \<open>-...-name=value\<close> is found, whatever the case of its letters.\<close>

lemma checkCmdLineFlag_loop_token:
  assumes low: "map tolower s = map tolower string_ref"
    and len: "2 \<le> length string_ref"
    and eq: "CHR ''='' \<notin> set s"
    and dash: "hd s \<noteq> CHR ''-''"
    and rest: "rest = [] \<or> hd rest = CHR ''=''"
  shows "checkCmdLineFlag_loop (before @ (replicate n (CHR ''-'') @ s @ rest) # after) string_ref b"
proof -
  have ls: "length s = length string_ref"
    using low by (metis length_map)
  have tok: "checkCmdLineFlag_loop ((replicate n (CHR ''-'') @ s @ rest) # after) string_ref b'" for b'
  proof -
    have "2 \<le> length (s @ rest)" using ls len by simp
    moreover have "hd (s @ rest) \<noteq> CHR ''-''" using dash ls len by (cases s) auto
    ultimately have start: "stringRemoveDelimiter (CHR ''-'') (replicate n (CHR ''-'') @ s @ rest) = int n"
      by (rule stringRemoveDelimiter_dashes)
    have pos: "(case strchr (s @ rest) (CHR ''='') of None \<Rightarrow> int (length (s @ rest)) | Some p \<Rightarrow> int p)
               = int (length string_ref)"
    proof (cases rest)
      case Nil
      then show ?thesis using eq ls by (simp add: strchr_notin)
    next
      case (Cons c v)
      with rest have "rest = CHR ''='' # v" by simp
      then show ?thesis using eq ls by (simp add: strchr_first)
    qed
    have cmp: "strncasecmp (s @ rest) string_ref (length string_ref) = 0"
      using low by (rule strncasecmp_prefix)
    show ?thesis using start pos cmp by simp
  qed
  show ?thesis
  proof (induction before arbitrary: b)
    case Nil
    show ?case by (simp only: append_Nil) (rule tok)
  next
    case (Cons a before)
    then show ?case by (simp add: Let_def)
  qed
qed

lemma checkCmdLineFlag_token:
  assumes "map tolower s = map tolower string_ref" "2 \<le> length string_ref"
    "CHR ''='' \<notin> set s" "hd s \<noteq> CHR ''-''" "rest = [] \<or> hd rest = CHR ''=''"
  shows "checkCmdLineFlag (prog # before @ (replicate n (CHR ''-'') @ s @ rest) # after) string_ref"
  using checkCmdLineFlag_loop_token [OF assms] by (simp add: checkCmdLineFlag_def)

lemma lowered_notin:
  assumes "map tolower s = r" "tolower c = c" "c \<notin> set r"
  shows "c \<notin> set s"
proof
  assume "c \<in> set s"
  then have "tolower c \<in> set (map tolower s)" by simp
  with assms show False by simp
qed

lemma lowered_hd:
  assumes "map tolower s = r" "tolower c = c" "r \<noteq> []" "hd r \<noteq> c"
  shows "hd s \<noteq> c"
  using assms by (cases s) auto

lemma getCmdLineArgumentInt_loop_no_match:
  assumes "\<forall>arg \<in> set args.
             strncasecmp (drop (nat (stringRemoveDelimiter (CHR ''-'') arg)) arg) string_ref
               (length string_ref) \<noteq> 0"
  shows "getCmdLineArgumentInt_loop args string_ref st = st"
  using assms
proof (induction args)
  case Nil
  show ?case by simp
next
  case (Cons arg args)
  obtain bFound val where st: "st = (bFound, val)" by (cases st)
  from Cons show ?case by (simp add: st)
qed

text \<open>
  Claim C6. \<open>getCmdLineArgumentInt\<close> gives 5 for \<open>["--alloc_mem_gb=5"]\<close> and the name
  \<open>alloc_mem_gb\<close>, 0 for \<open>["--alloc_mem_gb"]\<close> without a suffix, the trailing numeral 3 for the
  concatenated \<open>["--device3"]\<close> and the name \<open>device\<close>, and 0 whenever no argument matches the
  name (the match of its own loop: the name is a prefix, ignoring case, of the argument
  with its leading dashes removed).
\<close>

theorem getCmdLineArgumentInt_contract:
  "getCmdLineArgumentInt [prog, ''--alloc_mem_gb=5''] ''alloc_mem_gb'' = 5
   \<and> getCmdLineArgumentInt [prog, ''--alloc_mem_gb''] ''alloc_mem_gb'' = 0
   \<and> getCmdLineArgumentInt [prog, ''--device3''] ''device'' = 3
   \<and> ((\<forall>arg \<in> set (drop 1 argv).
          strncasecmp (drop (nat (stringRemoveDelimiter (CHR ''-'') arg)) arg) string_ref
            (length string_ref) \<noteq> 0)
        \<longrightarrow> getCmdLineArgumentInt argv string_ref = 0)"
proof (intro conjI impI)
  show "getCmdLineArgumentInt [prog, ''--alloc_mem_gb=5''] ''alloc_mem_gb'' = 5"
    by (simp add: lexer_defs)
  show "getCmdLineArgumentInt [prog, ''--alloc_mem_gb''] ''alloc_mem_gb'' = 0"
    by (simp add: lexer_defs)
  show "getCmdLineArgumentInt [prog, ''--device3''] ''device'' = 3"
    by (simp add: lexer_defs)
next
  assume "\<forall>arg \<in> set (drop 1 argv).
            strncasecmp (drop (nat (stringRemoveDelimiter (CHR ''-'') arg)) arg) string_ref
              (length string_ref) \<noteq> 0"
  then have "getCmdLineArgumentInt_loop (drop 1 argv) string_ref (False, - 1) = (False, - 1)"
    by (rule getCmdLineArgumentInt_loop_no_match)
  then show "getCmdLineArgumentInt argv string_ref = 0"
    by (simp add: getCmdLineArgumentInt_def)
qed

theorem getCmdLineArgumentInt_contract_witness:
  "getCmdLineArgumentInt [''cudaMemTest'', ''--alloc_mem_gb=5''] ''alloc_mem_gb'' = 5
   \<and> getCmdLineArgumentInt [''cudaMemTest'', ''--alloc_mem_gb''] ''alloc_mem_gb'' = 0
   \<and> getCmdLineArgumentInt [''cudaMemTest'', ''--device3''] ''device'' = 3
   \<and> getCmdLineArgumentInt [''cudaMemTest'', ''--alloc_mem_gb=5'', ''-x''] ''device'' = 0"
  using getCmdLineArgumentInt_contract
    [of "''cudaMemTest''" "[''cudaMemTest'', ''--alloc_mem_gb=5'', ''-x'']" "''device''"]
  by (simp add: stringRemoveDelimiter_def tolower_def)








section \<open>Properties of the run\<close>

lemma stderr_of_append [simp]: "stderr_of (xs @ ys) = stderr_of xs @ stderr_of ys"
  by (induction xs rule: stderr_of.induct) simp_all

lemma stdout_of_append [simp]: "stdout_of (xs @ ys) = stdout_of xs @ stdout_of ys"
  by (induction xs rule: stdout_of.induct) simp_all

lemma runtime_calls_append [simp]: "runtime_calls (xs @ ys) = runtime_calls xs @ runtime_calls ys"
  by (induction xs rule: runtime_calls.induct) simp_all

lemma requested_size_of_quiet [simp]:
  "stderr_of (fst (requested_size_of argv)) = []"
  "runtime_calls (fst (requested_size_of argv)) = []"
  by (simp_all add: requested_size_of_def Let_def)

lemma clamp_size_quiet [simp]:
  "stderr_of (fst (clamp_size free_memory requested_size)) = []"
  "runtime_calls (fst (clamp_size free_memory requested_size)) = []"
  by (simp_all add: clamp_size_def Let_def)

text \<open>The run after device selection, in one equation.\<close>

lemma main_after_device_eq:
  "main_after_device rt argv =
     (Call_cudaMemGetInfo #
        (if fst (rt_cudaMemGetInfo rt) = cudaSuccess
         then [Stdout (''free mem '' @ format_ld (fst (snd (rt_cudaMemGetInfo rt))) @ '' total mem ''
                       @ format_ld (snd (snd (rt_cudaMemGetInfo rt))) @ '' '' @ [newline])]
         else [])
        @ fst (requested_size_of argv)
        @ fst (clamp_size (fst (snd (rt_cudaMemGetInfo rt))) (snd (requested_size_of argv)))
        @ fst (alloc_fill_free rt (allocation_size rt argv)),
      snd (alloc_fill_free rt (allocation_size rt argv)))"
  by (simp add: main_after_device_def allocation_size_def split: prod.splits)

text \<open>The four ways out of \<open>main\<close> before the memory query, and the four outcomes of the test itself.\<close>

lemma main_help:
  "help_requested argv \<Longrightarrow>
   main rt argv =
     ([Stdout (''A simple cuda memory testing tool'' @ [newline]),
       Stdout (''Usage --device=n (n >= 0 for deviceID),'' @ [newline]),
       Stdout (''      --alloc_mem_gb=k (allocates k GB)'' @ [newline])], 0)"
  by (auto simp add: main_def help_requested_def ALLOC_MEM_OPT_STR_def EXIT_SUCCESS_def)

lemma main_no_device:
  "\<not> help_requested argv \<Longrightarrow> \<not> checkCmdLineFlag argv ''device'' \<Longrightarrow>
   main rt argv =
     ([Stdout (''A simple cuda memory testing tool'' @ [newline]),
       Stdout (''Usage --device=n (n >= 0 for deviceID)'' @ [newline]),
       Stdout (''      --alloc_mem_gb=k (allocates k GB)'' @ [newline])], 0)"
  by (simp add: main_def help_requested_def ALLOC_MEM_OPT_STR_def EXIT_SUCCESS_def)

lemma main_bad_device:
  "device_requested argv \<Longrightarrow>
   rt_cudaSetDevice rt (getCmdLineArgumentInt argv ''device'') \<noteq> cudaSuccess \<Longrightarrow>
   main rt argv =
     ([Call_cudaSetDevice (getCmdLineArgumentInt argv ''device''),
       Stdout (''Invalid device id or device already in use'' @ [newline])], 1)"
  by (simp add: main_def device_requested_def help_requested_def EXIT_FAILURE_def)

lemma main_device_selected:
  "device_selected rt argv \<Longrightarrow>
   main rt argv =
     (Call_cudaSetDevice (getCmdLineArgumentInt argv ''device'') # fst (main_after_device rt argv),
      snd (main_after_device rt argv))"
  by (simp add: main_def device_selected_def device_requested_def help_requested_def
      split: prod.splits)

lemma alloc_fill_free_malloc_fails:
  "rt_cudaMalloc rt sz \<noteq> cudaSuccess \<Longrightarrow>
   alloc_fill_free rt sz =
     ([Call_cudaMalloc sz,
       Stderr (''Test failed (error code '' @ rt_cudaGetErrorString rt (rt_cudaMalloc rt sz) @ '')!''
               @ [newline])], 1)"
  by (simp add: alloc_fill_free_def EXIT_FAILURE_def)

lemma alloc_fill_free_memset_fails:
  "rt_cudaMalloc rt sz = cudaSuccess \<Longrightarrow> rt_cudaMemset rt 0xf sz \<noteq> cudaSuccess \<Longrightarrow>
   alloc_fill_free rt sz =
     ([Call_cudaMalloc sz, Call_cudaMemset 0xf sz,
       Stderr (''Test failed in setting mem(error code ''
               @ rt_cudaGetErrorString rt (rt_cudaMemset rt 0xf sz) @ '')!'' @ [newline])], 1)"
  by (simp add: alloc_fill_free_def EXIT_FAILURE_def)

lemma alloc_fill_free_free_fails:
  "rt_cudaMalloc rt sz = cudaSuccess \<Longrightarrow> rt_cudaMemset rt 0xf sz = cudaSuccess \<Longrightarrow>
   rt_cudaFree rt \<noteq> cudaSuccess \<Longrightarrow>
   alloc_fill_free rt sz =
     ([Call_cudaMalloc sz, Call_cudaMemset 0xf sz, Call_cudaFree,
       Stderr (''Failed to free device vector A (error code ''
               @ rt_cudaGetErrorString rt (rt_cudaFree rt) @ '')!'' @ [newline])], 1)"
  by (simp add: alloc_fill_free_def EXIT_FAILURE_def)

lemma alloc_fill_free_passes:
  "rt_cudaMalloc rt sz = cudaSuccess \<Longrightarrow> rt_cudaMemset rt 0xf sz = cudaSuccess \<Longrightarrow>
   rt_cudaFree rt = cudaSuccess \<Longrightarrow>
   alloc_fill_free rt sz =
     ([Call_cudaMalloc sz, Call_cudaMemset 0xf sz, Call_cudaFree,
       Stdout (''CUDA memory test PASSED'' @ [newline])], 0)"
  by (simp add: alloc_fill_free_def EXIT_SUCCESS_def)

lemma stderr_of_main_after_device:
  "stderr_of (fst (main_after_device rt argv)) = stderr_of (fst (alloc_fill_free rt (allocation_size rt argv)))"
  by (simp add: main_after_device_eq)

lemma main_selected_status:
  "device_selected rt argv \<Longrightarrow> snd (main rt argv) = snd (alloc_fill_free rt (allocation_size rt argv))"
  by (simp add: main_device_selected main_after_device_eq)

lemma main_selected_stderr:
  "device_selected rt argv \<Longrightarrow>
   stderr_of (fst (main rt argv)) = stderr_of (fst (alloc_fill_free rt (allocation_size rt argv)))"
  by (simp add: main_device_selected stderr_of_main_after_device)

lemma main_selected_last_stdout:
  assumes "device_selected rt argv"
    and "rt_cudaMalloc rt (allocation_size rt argv) = cudaSuccess"
    and "rt_cudaMemset rt 0xf (allocation_size rt argv) = cudaSuccess"
    and "rt_cudaFree rt = cudaSuccess"
  shows "last (stdout_of (fst (main rt argv))) = ''CUDA memory test PASSED'' @ [newline]"
  using assms by (simp add: main_device_selected main_after_device_eq alloc_fill_free_passes)

section \<open>Evaluating the double-precision product\<close>

text \<open>The bit length of a numeral, computed along its binary digits.\<close>

lemma bitlen_0 [simp]: "bitlen 0 = 0"
  by (simp add: bitlen.simps)

lemma bitlen_Suc_0 [simp]: "bitlen (Suc 0) = 1"
  by (subst bitlen.simps) simp

lemma bitlen_1 [simp]: "bitlen 1 = 1"
  by simp

lemma bitlen_Bit0 [simp]: "bitlen (numeral (Num.Bit0 k)) = 1 + bitlen (numeral k)"
  by (subst bitlen.simps) simp

lemma bitlen_Bit1 [simp]: "bitlen (numeral (Num.Bit1 k)) = 1 + bitlen (numeral k)"
  by (subst bitlen.simps) simp

lemma tenth_of_scenario: "tenth_of 10000000000 = 1000000000"
  by (simp add: tenth_of_def round_to_double_def double_tenth_def Let_def)

section \<open>The example runs\<close>

lemma scenario_help: "help_requested [''cudaMemTest'', ''--help'']"
  by (simp add: help_requested_def lexer_defs)

lemma scenario_no_args:
  "\<not> help_requested [''cudaMemTest'']" "\<not> checkCmdLineFlag [''cudaMemTest''] ''device''"
  by (simp_all add: help_requested_def lexer_defs)

lemma scenario_device_99:
  "device_requested [''cudaMemTest'', ''--device=99'']"
  "getCmdLineArgumentInt [''cudaMemTest'', ''--device=99''] ''device'' = 99"
  by (simp_all add: device_requested_def help_requested_def lexer_defs)

lemma scenario_device_0:
  "device_requested [''cudaMemTest'', ''--device=0'']"
  "getCmdLineArgumentInt [''cudaMemTest'', ''--device=0''] ''device'' = 0"
  "\<not> checkCmdLineFlag [''cudaMemTest'', ''--device=0''] ''alloc_mem_gb''"
  by (simp_all add: device_requested_def help_requested_def lexer_defs)

lemma scenario_clamp: "clamp_size 10000000000 1000000000 = ([], 1000000000)"
  by (simp add: clamp_size_def max_alloc_size_of_def tenth_of_scenario)

lemma scenario_requested:
  "requested_size_of [''cudaMemTest'', ''--device=0''] = ([], 1000000000)"
  by (simp add: requested_size_of_def scenario_device_0 ALLOC_MEM_OPT_STR_def
      DEFAULT_ALLOC_MEM_IN_GB_def)

lemma scenario_selected:
  "rt_cudaSetDevice rt = rt_cudaSetDevice scenario_runtime \<Longrightarrow>
   device_selected rt [''cudaMemTest'', ''--device=0'']"
  by (simp add: device_selected_def scenario_device_0 scenario_runtime_def)

lemma scenario_allocation_size:
  "rt_cudaMemGetInfo rt = rt_cudaMemGetInfo scenario_runtime \<Longrightarrow>
   allocation_size rt [''cudaMemTest'', ''--device=0''] = 1000000000"
  by (simp add: allocation_size_def scenario_requested scenario_clamp scenario_runtime_def)

section \<open>The diagnostic runner\<close>

lemma runtime_calls_alloc_fill_free_hd:
  "\<exists>rest. runtime_calls (fst (alloc_fill_free rt sz)) = Call_cudaMalloc sz # rest"
  by (simp add: alloc_fill_free_def Let_def)

lemma stdout_of_alloc_fill_free:
  "set (stdout_of (fst (alloc_fill_free rt sz))) \<subseteq> {''CUDA memory test PASSED'' @ [newline]}"
  by (simp add: alloc_fill_free_def Let_def)

lemma stdout_of_requested_size_of:
  "s \<in> set (stdout_of (fst (requested_size_of argv))) \<Longrightarrow> take 6 s = ''alloc ''"
  by (simp add: requested_size_of_def Let_def split: if_splits)

lemma stdout_of_clamp_size:
  "s \<in> set (stdout_of (fst (clamp_size free_memory requested_size))) \<Longrightarrow> take 7 s = ''Invalid''"
  by (simp add: clamp_size_def Let_def split: if_splits)

lemma take_same_head:
  assumes "take n s = c # cs" "take m s = d # ds"
  shows "c = d"
proof (cases s)
  case Nil
  with assms show ?thesis by simp
next
  case (Cons x xs)
  with assms show ?thesis by (cases n; cases m; simp)
qed

text \<open>
  Claim C2. The exit status is 0 on the help path, on the usage path (no device flag) and
  when allocation, fill and free all succeed; it is 1 when the device cannot be selected
  and when allocation, fill or free fails. On success nothing is written to the error
  stream and the last line on standard output is \<open>CUDA memory test PASSED\<close>; when the
  allocation, the fill or the free fails the error stream holds exactly the one line
  \<open>Test failed (error code <description>)!\<close>,
  \<open>Test failed in setting mem(error code <description>)!\<close> or
  \<open>Failed to free device vector A (error code <description>)!\<close>, where the description is
  what \<open>cudaGetErrorString\<close> gives for the error.
\<close>

theorem exit_code_and_console_contract:
  "(help_requested argv \<longrightarrow> snd (main rt argv) = 0)
   \<and> (\<not> help_requested argv \<and> \<not> checkCmdLineFlag argv ''device'' \<longrightarrow> snd (main rt argv) = 0)
   \<and> (device_requested argv
        \<and> rt_cudaSetDevice rt (getCmdLineArgumentInt argv ''device'') \<noteq> cudaSuccess
        \<longrightarrow> snd (main rt argv) = 1)
   \<and> (device_selected rt argv \<and> rt_cudaMalloc rt (allocation_size rt argv) \<noteq> cudaSuccess
        \<longrightarrow> snd (main rt argv) = 1
            \<and> stderr_of (fst (main rt argv)) =
                [''Test failed (error code ''
                 @ rt_cudaGetErrorString rt (rt_cudaMalloc rt (allocation_size rt argv))
                 @ '')!'' @ [newline]])
   \<and> (device_selected rt argv \<and> rt_cudaMalloc rt (allocation_size rt argv) = cudaSuccess
        \<and> rt_cudaMemset rt 0xf (allocation_size rt argv) \<noteq> cudaSuccess
        \<longrightarrow> snd (main rt argv) = 1
            \<and> stderr_of (fst (main rt argv)) =
                [''Test failed in setting mem(error code ''
                 @ rt_cudaGetErrorString rt (rt_cudaMemset rt 0xf (allocation_size rt argv))
                 @ '')!'' @ [newline]])
   \<and> (device_selected rt argv \<and> rt_cudaMalloc rt (allocation_size rt argv) = cudaSuccess
        \<and> rt_cudaMemset rt 0xf (allocation_size rt argv) = cudaSuccess
        \<and> rt_cudaFree rt \<noteq> cudaSuccess
        \<longrightarrow> snd (main rt argv) = 1
            \<and> stderr_of (fst (main rt argv)) =
                [''Failed to free device vector A (error code ''
                 @ rt_cudaGetErrorString rt (rt_cudaFree rt) @ '')!'' @ [newline]])
   \<and> (device_selected rt argv \<and> rt_cudaMalloc rt (allocation_size rt argv) = cudaSuccess
        \<and> rt_cudaMemset rt 0xf (allocation_size rt argv) = cudaSuccess
        \<and> rt_cudaFree rt = cudaSuccess
        \<longrightarrow> snd (main rt argv) = 0
            \<and> stderr_of (fst (main rt argv)) = []
            \<and> last (stdout_of (fst (main rt argv))) = ''CUDA memory test PASSED'' @ [newline])"
proof (intro conjI impI; (elim conjE)?)
  show "snd (main rt argv) = 0" if "help_requested argv"
    using that by (simp add: main_help)
  show "snd (main rt argv) = 0" if "\<not> help_requested argv" "\<not> checkCmdLineFlag argv ''device''"
    using that by (simp add: main_no_device)
  show "snd (main rt argv) = 1"
    if "device_requested argv"
      "rt_cudaSetDevice rt (getCmdLineArgumentInt argv ''device'') \<noteq> cudaSuccess"
    using that by (simp add: main_bad_device)
next
  assume "device_selected rt argv" "rt_cudaMalloc rt (allocation_size rt argv) \<noteq> cudaSuccess"
  then show "snd (main rt argv) = 1"
    and "stderr_of (fst (main rt argv)) =
           [''Test failed (error code ''
            @ rt_cudaGetErrorString rt (rt_cudaMalloc rt (allocation_size rt argv))
            @ '')!'' @ [newline]]"
    by (simp_all add: main_selected_status main_selected_stderr alloc_fill_free_malloc_fails)
next
  assume "device_selected rt argv" "rt_cudaMalloc rt (allocation_size rt argv) = cudaSuccess"
    "rt_cudaMemset rt 0xf (allocation_size rt argv) \<noteq> cudaSuccess"
  then show "snd (main rt argv) = 1"
    and "stderr_of (fst (main rt argv)) =
           [''Test failed in setting mem(error code ''
            @ rt_cudaGetErrorString rt (rt_cudaMemset rt 0xf (allocation_size rt argv))
            @ '')!'' @ [newline]]"
    by (simp_all add: main_selected_status main_selected_stderr alloc_fill_free_memset_fails)
next
  assume "device_selected rt argv" "rt_cudaMalloc rt (allocation_size rt argv) = cudaSuccess"
    "rt_cudaMemset rt 0xf (allocation_size rt argv) = cudaSuccess"
    "rt_cudaFree rt \<noteq> cudaSuccess"
  then show "snd (main rt argv) = 1"
    and "stderr_of (fst (main rt argv)) =
           [''Failed to free device vector A (error code ''
            @ rt_cudaGetErrorString rt (rt_cudaFree rt) @ '')!'' @ [newline]]"
    by (simp_all add: main_selected_status main_selected_stderr alloc_fill_free_free_fails)
next
  assume sel: "device_selected rt argv"
    and ok: "rt_cudaMalloc rt (allocation_size rt argv) = cudaSuccess"
      "rt_cudaMemset rt 0xf (allocation_size rt argv) = cudaSuccess"
      "rt_cudaFree rt = cudaSuccess"
  then show "snd (main rt argv) = 0" and "stderr_of (fst (main rt argv)) = []"
    by (simp_all add: main_selected_status main_selected_stderr alloc_fill_free_passes)
  show "last (stdout_of (fst (main rt argv))) = ''CUDA memory test PASSED'' @ [newline]"
    using sel ok by (rule main_selected_last_stdout)
qed

theorem exit_code_and_console_contract_witness:
  "snd (main scenario_runtime [''cudaMemTest'', ''--help'']) = 0
   \<and> snd (main scenario_runtime [''cudaMemTest'']) = 0
   \<and> snd (main scenario_runtime [''cudaMemTest'', ''--device=99'']) = 1
   \<and> snd (main (scenario_runtime\<lparr>rt_cudaMalloc := \<lambda>size. cudaErrorCode 2\<rparr>)
             [''cudaMemTest'', ''--device=0'']) = 1
   \<and> stderr_of (fst (main (scenario_runtime\<lparr>rt_cudaMalloc := \<lambda>size. cudaErrorCode 2\<rparr>)
                         [''cudaMemTest'', ''--device=0''])) =
        [''Test failed (error code out of memory)!'' @ [newline]]
   \<and> snd (main (scenario_runtime\<lparr>rt_cudaMemset := \<lambda>val size. cudaErrorCode 700\<rparr>)
             [''cudaMemTest'', ''--device=0'']) = 1
   \<and> stderr_of (fst (main (scenario_runtime\<lparr>rt_cudaMemset := \<lambda>val size. cudaErrorCode 700\<rparr>)
                         [''cudaMemTest'', ''--device=0''])) =
        [''Test failed in setting mem(error code unknown error)!'' @ [newline]]
   \<and> snd (main (scenario_runtime\<lparr>rt_cudaFree := cudaErrorCode 700\<rparr>)
             [''cudaMemTest'', ''--device=0'']) = 1
   \<and> stderr_of (fst (main (scenario_runtime\<lparr>rt_cudaFree := cudaErrorCode 700\<rparr>)
                         [''cudaMemTest'', ''--device=0''])) =
        [''Failed to free device vector A (error code unknown error)!'' @ [newline]]
   \<and> snd (main scenario_runtime [''cudaMemTest'', ''--device=0'']) = 0
   \<and> stderr_of (fst (main scenario_runtime [''cudaMemTest'', ''--device=0''])) = []
   \<and> last (stdout_of (fst (main scenario_runtime [''cudaMemTest'', ''--device=0''])))
       = ''CUDA memory test PASSED'' @ [newline]"
proof -
  let ?argv = "[''cudaMemTest'', ''--device=0'']"
  let ?no_malloc = "scenario_runtime\<lparr>rt_cudaMalloc := \<lambda>size. cudaErrorCode 2\<rparr>"
  let ?no_memset = "scenario_runtime\<lparr>rt_cudaMemset := \<lambda>val size. cudaErrorCode 700\<rparr>"
  let ?no_free = "scenario_runtime\<lparr>rt_cudaFree := cudaErrorCode 700\<rparr>"
  have w_help: "snd (main scenario_runtime [''cudaMemTest'', ''--help'']) = 0"
    using exit_code_and_console_contract [of "[''cudaMemTest'', ''--help'']" scenario_runtime]
      scenario_help by simp
  have w_usage: "snd (main scenario_runtime [''cudaMemTest'']) = 0"
    using exit_code_and_console_contract [of "[''cudaMemTest'']" scenario_runtime]
      scenario_no_args by simp
  have w_bad: "snd (main scenario_runtime [''cudaMemTest'', ''--device=99'']) = 1"
    using exit_code_and_console_contract [of "[''cudaMemTest'', ''--device=99'']" scenario_runtime]
      scenario_device_99 by (simp add: scenario_runtime_def)
  have sel: "device_selected ?no_malloc ?argv" "device_selected ?no_memset ?argv"
    "device_selected ?no_free ?argv" "device_selected scenario_runtime ?argv"
    by (simp_all add: scenario_selected)
  have sz: "allocation_size ?no_malloc ?argv = 1000000000"
    "allocation_size ?no_memset ?argv = 1000000000"
    "allocation_size ?no_free ?argv = 1000000000"
    "allocation_size scenario_runtime ?argv = 1000000000"
    by (simp_all add: scenario_allocation_size)
  have w_malloc: "snd (main ?no_malloc ?argv) = 1
      \<and> stderr_of (fst (main ?no_malloc ?argv)) = [''Test failed (error code out of memory)!'' @ [newline]]"
    using exit_code_and_console_contract [of ?argv ?no_malloc] sel(1)
    by (simp add: sz(1)) (simp add: scenario_runtime_def)
  have w_memset: "snd (main ?no_memset ?argv) = 1
      \<and> stderr_of (fst (main ?no_memset ?argv)) =
          [''Test failed in setting mem(error code unknown error)!'' @ [newline]]"
    using exit_code_and_console_contract [of ?argv ?no_memset] sel(2)
    by (simp add: sz(2)) (simp add: scenario_runtime_def)
  have w_free: "snd (main ?no_free ?argv) = 1
      \<and> stderr_of (fst (main ?no_free ?argv)) =
          [''Failed to free device vector A (error code unknown error)!'' @ [newline]]"
    using exit_code_and_console_contract [of ?argv ?no_free] sel(3)
    by (simp add: sz(3)) (simp add: scenario_runtime_def)
  have w_pass: "snd (main scenario_runtime ?argv) = 0
      \<and> stderr_of (fst (main scenario_runtime ?argv)) = []
      \<and> last (stdout_of (fst (main scenario_runtime ?argv))) = ''CUDA memory test PASSED'' @ [newline]"
    using exit_code_and_console_contract [of ?argv scenario_runtime] sel(4)
    by (simp add: sz(4)) (simp add: scenario_runtime_def)
  from w_help w_usage w_bad w_malloc w_memset w_free w_pass show ?thesis
    by blast
qed

text \<open>
  Claim C4. When the device flag is present (and help is not requested) and
  \<open>cudaSetDevice\<close> fails, the run is the call of \<open>cudaSetDevice\<close> followed by the one line
  \<open>Invalid device id or device already in use\<close> on standard output, the exit status is 1,
  and \<open>cudaSetDevice\<close> is the only call of the runtime: no memory query, allocation, fill
  or free is attempted.
\<close>

theorem fail_fast_on_device_selection:
  "device_requested argv
   \<and> rt_cudaSetDevice rt (getCmdLineArgumentInt argv ''device'') \<noteq> cudaSuccess
   \<longrightarrow> main rt argv =
         ([Call_cudaSetDevice (getCmdLineArgumentInt argv ''device''),
           Stdout (''Invalid device id or device already in use'' @ [newline])], 1)
       \<and> runtime_calls (fst (main rt argv)) =
           [Call_cudaSetDevice (getCmdLineArgumentInt argv ''device'')]"
  by (simp add: main_bad_device)

theorem fail_fast_on_device_selection_witness:
  "main scenario_runtime [''cudaMemTest'', ''--device=99''] =
     ([Call_cudaSetDevice 99, Stdout (''Invalid device id or device already in use'' @ [newline])], 1)
   \<and> runtime_calls (fst (main scenario_runtime [''cudaMemTest'', ''--device=99''])) =
       [Call_cudaSetDevice 99]"
  using fail_fast_on_device_selection [of "[''cudaMemTest'', ''--device=99'']" scenario_runtime]
    scenario_device_99
  by (simp add: scenario_runtime_def)

text \<open>
  Claim C5. When the device is selected and \<open>cudaMemGetInfo\<close> fails, the run goes on: it
  computes the requested size, applies the ceiling and calls \<open>cudaMalloc\<close> with the result,
  so the first three runtime calls are \<open>cudaSetDevice\<close>, \<open>cudaMemGetInfo\<close> and \<open>cudaMalloc\<close>;
  and no line of standard output is the \<open>free mem ... total mem ...\<close> report.
\<close>

theorem memory_query_failure_is_not_fatal:
  "device_selected rt argv \<and> fst (rt_cudaMemGetInfo rt) \<noteq> cudaSuccess
   \<longrightarrow> fst (main rt argv) =
         Call_cudaSetDevice (getCmdLineArgumentInt argv ''device'') # Call_cudaMemGetInfo
         # fst (requested_size_of argv)
         @ fst (clamp_size (fst (snd (rt_cudaMemGetInfo rt))) (snd (requested_size_of argv)))
         @ fst (alloc_fill_free rt (allocation_size rt argv))
       \<and> take 3 (runtime_calls (fst (main rt argv))) =
           [Call_cudaSetDevice (getCmdLineArgumentInt argv ''device''), Call_cudaMemGetInfo,
            Call_cudaMalloc (allocation_size rt argv)]
       \<and> (\<forall>s \<in> set (stdout_of (fst (main rt argv))). take 8 s \<noteq> ''free mem'')"
proof (intro impI, elim conjE)
  assume sel: "device_selected rt argv" and fail: "fst (rt_cudaMemGetInfo rt) \<noteq> cudaSuccess"
  let ?d = "getCmdLineArgumentInt argv ''device''"
  let ?req = "fst (requested_size_of argv)"
  let ?clamp = "fst (clamp_size (fst (snd (rt_cudaMemGetInfo rt))) (snd (requested_size_of argv)))"
  let ?test = "fst (alloc_fill_free rt (allocation_size rt argv))"
  have run: "fst (main rt argv) = Call_cudaSetDevice ?d # Call_cudaMemGetInfo # ?req @ ?clamp @ ?test"
    using sel fail by (simp add: main_device_selected main_after_device_eq)
  obtain rest where rest: "runtime_calls ?test = Call_cudaMalloc (allocation_size rt argv) # rest"
    using runtime_calls_alloc_fill_free_hd by blast
  have calls: "take 3 (runtime_calls (fst (main rt argv))) =
      [Call_cudaSetDevice ?d, Call_cudaMemGetInfo, Call_cudaMalloc (allocation_size rt argv)]"
    by (simp add: run rest)
  have quiet: "take 8 s \<noteq> ''free mem''" if "s \<in> set (stdout_of (fst (main rt argv)))" for s
  proof -
    from that consider "s \<in> set (stdout_of ?req)" | "s \<in> set (stdout_of ?clamp)"
      | "s \<in> set (stdout_of ?test)"
      by (auto simp add: run)
    then show ?thesis
    proof cases
      case 1
      then have "take 6 s = ''alloc ''" by (rule stdout_of_requested_size_of)
      then show ?thesis using take_same_head [of 6 s _ _ 8] by fastforce
    next
      case 2
      then have "take 7 s = ''Invalid''" by (rule stdout_of_clamp_size)
      then show ?thesis using take_same_head [of 7 s _ _ 8] by fastforce
    next
      case 3
      then have "s = ''CUDA memory test PASSED'' @ [newline]"
        using stdout_of_alloc_fill_free by blast
      then show ?thesis by simp
    qed
  qed
  from run calls quiet
  show "fst (main rt argv) = Call_cudaSetDevice ?d # Call_cudaMemGetInfo # ?req @ ?clamp @ ?test
       \<and> take 3 (runtime_calls (fst (main rt argv))) =
           [Call_cudaSetDevice ?d, Call_cudaMemGetInfo, Call_cudaMalloc (allocation_size rt argv)]
       \<and> (\<forall>s \<in> set (stdout_of (fst (main rt argv))). take 8 s \<noteq> ''free mem'')"
    by blast
qed

lemma show_nat_0: "show_nat 0 = ''0''"
  by (simp add: show_nat.simps [of 0] char_of_eq_iff)

lemma tenth_of_0: "tenth_of 0 = 0"
  by (simp add: tenth_of_def round_to_double_def double_tenth_def)

lemma clamp_size_no_memory:
  "clamp_size 0 1000000000 =
     ([Stdout (''Invalid allocation amount specified, using 0'' @ [newline])], 0)"
  by (simp add: clamp_size_def max_alloc_size_of_def tenth_of_0 format_lu_def show_nat_0)

theorem memory_query_failure_is_not_fatal_witness:
  "fst (main (scenario_runtime\<lparr>rt_cudaMemGetInfo := (cudaErrorCode 999, 0, 0)\<rparr>)
          [''cudaMemTest'', ''--device=0'']) =
     [Call_cudaSetDevice 0, Call_cudaMemGetInfo,
      Stdout (''Invalid allocation amount specified, using 0'' @ [newline]),
      Call_cudaMalloc 0, Call_cudaMemset 0xf 0, Call_cudaFree,
      Stdout (''CUDA memory test PASSED'' @ [newline])]"
proof -
  let ?rt = "scenario_runtime\<lparr>rt_cudaMemGetInfo := (cudaErrorCode 999, 0, 0)\<rparr>"
  let ?argv = "[''cudaMemTest'', ''--device=0'']"
  have sel: "device_selected ?rt ?argv"
    by (simp add: scenario_selected)
  have fail: "fst (rt_cudaMemGetInfo ?rt) \<noteq> cudaSuccess"
    by simp
  have sz: "allocation_size ?rt ?argv = 0"
    by (simp add: allocation_size_def scenario_requested clamp_size_no_memory)
  have test: "alloc_fill_free ?rt 0 =
      ([Call_cudaMalloc 0, Call_cudaMemset 0xf 0, Call_cudaFree,
        Stdout (''CUDA memory test PASSED'' @ [newline])], 0)"
    by (rule alloc_fill_free_passes) (simp_all add: scenario_runtime_def)
  show ?thesis
    using memory_query_failure_is_not_fatal [of ?rt ?argv] sel fail
    by (simp add: sz test scenario_requested clamp_size_no_memory scenario_device_0)
qed

lemma requested_size_of_absent:
  "\<not> checkCmdLineFlag argv ''alloc_mem_gb'' \<Longrightarrow> snd (requested_size_of argv) = 1000000000"
  by (simp add: requested_size_of_def ALLOC_MEM_OPT_STR_def DEFAULT_ALLOC_MEM_IN_GB_def)

lemma requested_size_of_zero:
  "checkCmdLineFlag argv ''alloc_mem_gb'' \<Longrightarrow> getCmdLineArgumentInt argv ''alloc_mem_gb'' = 0 \<Longrightarrow>
   snd (requested_size_of argv) = 1000000000"
  by (simp add: requested_size_of_def ALLOC_MEM_OPT_STR_def DEFAULT_ALLOC_MEM_IN_GB_def)

lemma runtime_calls_main_after_device:
  "runtime_calls (fst (main_after_device rt argv)) =
     Call_cudaMemGetInfo # runtime_calls (fst (alloc_fill_free rt (allocation_size rt argv)))"
  by (simp add: main_after_device_eq)

text \<open>
  Everything the GPU and the caller see of a run (the runtime calls, the error stream and
  the exit status) is fixed by the help and device flags and the size that is allocated.
\<close>

lemma main_observable:
  assumes "help_requested argv0 = help_requested argv1"
    and "checkCmdLineFlag argv0 ''device'' = checkCmdLineFlag argv1 ''device''"
    and "getCmdLineArgumentInt argv0 ''device'' = getCmdLineArgumentInt argv1 ''device''"
    and "allocation_size rt argv0 = allocation_size rt argv1"
  shows "runtime_calls (fst (main rt argv0)) = runtime_calls (fst (main rt argv1))
    \<and> stderr_of (fst (main rt argv0)) = stderr_of (fst (main rt argv1))
    \<and> snd (main rt argv0) = snd (main rt argv1)"
proof (cases "help_requested argv0")
  case True
  with assms(1) show ?thesis by (simp add: main_help)
next
  case no_help: False
  show ?thesis
  proof (cases "checkCmdLineFlag argv0 ''device''")
    case False
    with no_help assms(1,2) show ?thesis by (simp add: main_no_device)
  next
    case True
    with no_help assms(1,2) have req: "device_requested argv0" "device_requested argv1"
      by (simp_all add: device_requested_def)
    show ?thesis
    proof (cases "rt_cudaSetDevice rt (getCmdLineArgumentInt argv0 ''device'') = cudaSuccess")
      case False
      with req assms(3) show ?thesis by (simp add: main_bad_device)
    next
      case True
      with req assms(3) have "device_selected rt argv0" "device_selected rt argv1"
        by (simp_all add: device_selected_def)
      then show ?thesis
        using assms(3,4)
        by (simp add: main_device_selected runtime_calls_main_after_device
            stderr_of_main_after_device main_after_device_eq)
    qed
  qed
qed

lemma requested_size_of_zero_out:
  "checkCmdLineFlag argv ''alloc_mem_gb'' \<Longrightarrow> getCmdLineArgumentInt argv ''alloc_mem_gb'' = 0 \<Longrightarrow>
   fst (requested_size_of argv) = [Stdout (''alloc 0 '' @ [newline])]"
  by (simp add: requested_size_of_def ALLOC_MEM_OPT_STR_def format_ld_def show_nat_0)

lemma requested_size_of_absent_out:
  "\<not> checkCmdLineFlag argv ''alloc_mem_gb'' \<Longrightarrow> fst (requested_size_of argv) = []"
  by (simp add: requested_size_of_def ALLOC_MEM_OPT_STR_def)

lemma stdout_of_main_after_device:
  "stdout_of (fst (main_after_device rt argv)) =
     (if fst (rt_cudaMemGetInfo rt) = cudaSuccess
      then [''free mem '' @ format_ld (fst (snd (rt_cudaMemGetInfo rt))) @ '' total mem ''
            @ format_ld (snd (snd (rt_cudaMemGetInfo rt))) @ '' '' @ [newline]]
      else [])
     @ stdout_of (fst (requested_size_of argv))
     @ stdout_of (fst (clamp_size (fst (snd (rt_cudaMemGetInfo rt))) (snd (requested_size_of argv))))
     @ stdout_of (fst (alloc_fill_free rt (allocation_size rt argv)))"
  by (simp add: main_after_device_eq)

text \<open>
  The standard output of the two runs: the run with the flag at 0 prints the line
  \<open>alloc 0\<close> once the device is selected, and nothing else differs.
\<close>

lemma main_stdout_alloc_zero:
  assumes zero: "checkCmdLineFlag argv0 ''alloc_mem_gb''"
      "getCmdLineArgumentInt argv0 ''alloc_mem_gb'' = 0"
    and absent: "\<not> checkCmdLineFlag argv1 ''alloc_mem_gb''"
    and same: "help_requested argv0 = help_requested argv1"
      "checkCmdLineFlag argv0 ''device'' = checkCmdLineFlag argv1 ''device''"
      "getCmdLineArgumentInt argv0 ''device'' = getCmdLineArgumentInt argv1 ''device''"
  shows "remove1 (''alloc 0 '' @ [newline]) (stdout_of (fst (main rt argv0)))
           = stdout_of (fst (main rt argv1))"
    and "device_selected rt argv0 \<Longrightarrow>
           ''alloc 0 '' @ [newline] \<in> set (stdout_of (fst (main rt argv0)))"
proof -
  have req: "snd (requested_size_of argv0) = snd (requested_size_of argv1)"
    using zero absent by (simp add: requested_size_of_absent requested_size_of_zero)
  then have sz: "allocation_size rt argv0 = allocation_size rt argv1"
    by (simp add: allocation_size_def)
  have out0: "stdout_of (fst (requested_size_of argv0)) = [''alloc 0 '' @ [newline]]"
    using zero by (simp add: requested_size_of_zero_out)
  have out1: "stdout_of (fst (requested_size_of argv1)) = []"
    using absent by (simp add: requested_size_of_absent_out)
  show "remove1 (''alloc 0 '' @ [newline]) (stdout_of (fst (main rt argv0)))
           = stdout_of (fst (main rt argv1))"
  proof (cases "help_requested argv0")
    case True
    with same(1) show ?thesis by (simp add: main_help)
  next
    case no_help: False
    show ?thesis
    proof (cases "checkCmdLineFlag argv0 ''device''")
      case False
      with no_help same(1,2) show ?thesis by (simp add: main_no_device)
    next
      case True
      with no_help same(1,2) have requested: "device_requested argv0" "device_requested argv1"
        by (simp_all add: device_requested_def)
      show ?thesis
      proof (cases "rt_cudaSetDevice rt (getCmdLineArgumentInt argv0 ''device'') = cudaSuccess")
        case False
        with requested same(3) show ?thesis by (simp add: main_bad_device)
      next
        case True
        with requested same(3) have "device_selected rt argv0" "device_selected rt argv1"
          by (simp_all add: device_selected_def)
        then show ?thesis
          by (simp add: main_device_selected stdout_of_main_after_device out0 out1 req sz)
      qed
    qed
  qed
  show "''alloc 0 '' @ [newline] \<in> set (stdout_of (fst (main rt argv0)))"
    if "device_selected rt argv0"
    using that by (simp add: main_device_selected stdout_of_main_after_device out0)
qed

text \<open>
  Claim C7, with the one difference between the two runs. With the flag \<open>alloc_mem_gb\<close>
  absent, and with the flag present with value 0, the requested size before the ceiling is
  1,000,000,000 bytes. Two runs on the same runtime that differ only in this (flag with
  value 0 against flag absent) allocate the same size, make the same runtime calls, write
  the same error stream and exit with the same status. Their standard output is the same
  but for one line: once the device is selected the run with the flag prints \<open>alloc 0\<close>,
  and taking that line out gives the standard output of the run without the flag.
\<close>

theorem default_allocation_law:
  "(\<not> checkCmdLineFlag argv ''alloc_mem_gb'' \<longrightarrow> snd (requested_size_of argv) = 1000000000)
   \<and> (checkCmdLineFlag argv ''alloc_mem_gb'' \<and> getCmdLineArgumentInt argv ''alloc_mem_gb'' = 0
        \<longrightarrow> snd (requested_size_of argv) = 1000000000)
   \<and> (checkCmdLineFlag argv0 ''alloc_mem_gb'' \<and> getCmdLineArgumentInt argv0 ''alloc_mem_gb'' = 0
        \<and> \<not> checkCmdLineFlag argv1 ''alloc_mem_gb''
        \<and> help_requested argv0 = help_requested argv1
        \<and> checkCmdLineFlag argv0 ''device'' = checkCmdLineFlag argv1 ''device''
        \<and> getCmdLineArgumentInt argv0 ''device'' = getCmdLineArgumentInt argv1 ''device''
        \<longrightarrow> allocation_size rt argv0 = allocation_size rt argv1
            \<and> runtime_calls (fst (main rt argv0)) = runtime_calls (fst (main rt argv1))
            \<and> stderr_of (fst (main rt argv0)) = stderr_of (fst (main rt argv1))
            \<and> snd (main rt argv0) = snd (main rt argv1)
            \<and> remove1 (''alloc 0 '' @ [newline]) (stdout_of (fst (main rt argv0)))
                = stdout_of (fst (main rt argv1))
            \<and> (device_selected rt argv0
                 \<longrightarrow> ''alloc 0 '' @ [newline] \<in> set (stdout_of (fst (main rt argv0)))))"
proof (intro conjI impI; (elim conjE)?)
  show "snd (requested_size_of argv) = 1000000000" if "\<not> checkCmdLineFlag argv ''alloc_mem_gb''"
    using that by (rule requested_size_of_absent)
  show "snd (requested_size_of argv) = 1000000000"
    if "checkCmdLineFlag argv ''alloc_mem_gb''" "getCmdLineArgumentInt argv ''alloc_mem_gb'' = 0"
    using that by (rule requested_size_of_zero)
next
  assume zero: "checkCmdLineFlag argv0 ''alloc_mem_gb''"
      "getCmdLineArgumentInt argv0 ''alloc_mem_gb'' = 0"
    and absent: "\<not> checkCmdLineFlag argv1 ''alloc_mem_gb''"
    and same: "help_requested argv0 = help_requested argv1"
      "checkCmdLineFlag argv0 ''device'' = checkCmdLineFlag argv1 ''device''"
      "getCmdLineArgumentInt argv0 ''device'' = getCmdLineArgumentInt argv1 ''device''"
  have "snd (requested_size_of argv0) = snd (requested_size_of argv1)"
    using zero absent by (simp add: requested_size_of_absent requested_size_of_zero)
  then have sz: "allocation_size rt argv0 = allocation_size rt argv1"
    by (simp add: allocation_size_def)
  from main_observable [OF same sz] sz
  show "allocation_size rt argv0 = allocation_size rt argv1"
    and "runtime_calls (fst (main rt argv0)) = runtime_calls (fst (main rt argv1))"
    and "stderr_of (fst (main rt argv0)) = stderr_of (fst (main rt argv1))"
    and "snd (main rt argv0) = snd (main rt argv1)"
    by simp_all
  show "remove1 (''alloc 0 '' @ [newline]) (stdout_of (fst (main rt argv0)))
      = stdout_of (fst (main rt argv1))"
    using zero absent same by (rule main_stdout_alloc_zero(1))
  show "''alloc 0 '' @ [newline] \<in> set (stdout_of (fst (main rt argv0)))"
    if "device_selected rt argv0"
    using zero absent same that by (rule main_stdout_alloc_zero(2))
qed

lemma scenario_alloc_zero:
  "checkCmdLineFlag [''cudaMemTest'', ''--device=0'', ''--alloc_mem_gb=0''] ''alloc_mem_gb''"
  "getCmdLineArgumentInt [''cudaMemTest'', ''--device=0'', ''--alloc_mem_gb=0''] ''alloc_mem_gb'' = 0"
  "\<not> help_requested [''cudaMemTest'', ''--device=0'', ''--alloc_mem_gb=0'']"
  "checkCmdLineFlag [''cudaMemTest'', ''--device=0'', ''--alloc_mem_gb=0''] ''device''"
  "getCmdLineArgumentInt [''cudaMemTest'', ''--device=0'', ''--alloc_mem_gb=0''] ''device'' = 0"
  by (simp_all add: help_requested_def lexer_defs)

theorem default_allocation_law_witness:
  "snd (requested_size_of [''cudaMemTest'', ''--device=0'']) = 1000000000
   \<and> snd (requested_size_of [''cudaMemTest'', ''--device=0'', ''--alloc_mem_gb=0'']) = 1000000000
   \<and> allocation_size scenario_runtime [''cudaMemTest'', ''--device=0'', ''--alloc_mem_gb=0'']
       = allocation_size scenario_runtime [''cudaMemTest'', ''--device=0'']
   \<and> runtime_calls (fst (main scenario_runtime [''cudaMemTest'', ''--device=0'', ''--alloc_mem_gb=0'']))
       = runtime_calls (fst (main scenario_runtime [''cudaMemTest'', ''--device=0'']))
   \<and> stderr_of (fst (main scenario_runtime [''cudaMemTest'', ''--device=0'', ''--alloc_mem_gb=0'']))
       = stderr_of (fst (main scenario_runtime [''cudaMemTest'', ''--device=0'']))
   \<and> snd (main scenario_runtime [''cudaMemTest'', ''--device=0'', ''--alloc_mem_gb=0''])
       = snd (main scenario_runtime [''cudaMemTest'', ''--device=0''])
   \<and> remove1 (''alloc 0 '' @ [newline])
         (stdout_of (fst (main scenario_runtime [''cudaMemTest'', ''--device=0'', ''--alloc_mem_gb=0''])))
       = stdout_of (fst (main scenario_runtime [''cudaMemTest'', ''--device=0'']))
   \<and> ''alloc 0 '' @ [newline]
       \<in> set (stdout_of (fst (main scenario_runtime [''cudaMemTest'', ''--device=0'', ''--alloc_mem_gb=0''])))"
proof -
  let ?argv0 = "[''cudaMemTest'', ''--device=0'', ''--alloc_mem_gb=0'']"
  let ?argv1 = "[''cudaMemTest'', ''--device=0'']"
  have flags: "\<not> help_requested ?argv1" "checkCmdLineFlag ?argv1 ''device''"
    using scenario_device_0(1) by (simp_all add: device_requested_def)
  have sel: "device_selected scenario_runtime ?argv0"
    by (simp add: device_selected_def device_requested_def scenario_alloc_zero scenario_runtime_def)
  have absent: "snd (requested_size_of ?argv1) = 1000000000"
    using default_allocation_law [of ?argv1] scenario_device_0(3) by simp
  have zero: "snd (requested_size_of ?argv0) = 1000000000"
    using default_allocation_law [of ?argv0] scenario_alloc_zero(1,2) by simp
  from default_allocation_law [of _ ?argv0 ?argv1 scenario_runtime]
  have "checkCmdLineFlag ?argv0 ''alloc_mem_gb'' \<and> getCmdLineArgumentInt ?argv0 ''alloc_mem_gb'' = 0
        \<and> \<not> checkCmdLineFlag ?argv1 ''alloc_mem_gb''
        \<and> help_requested ?argv0 = help_requested ?argv1
        \<and> checkCmdLineFlag ?argv0 ''device'' = checkCmdLineFlag ?argv1 ''device''
        \<and> getCmdLineArgumentInt ?argv0 ''device'' = getCmdLineArgumentInt ?argv1 ''device''
        \<longrightarrow> allocation_size scenario_runtime ?argv0 = allocation_size scenario_runtime ?argv1
            \<and> runtime_calls (fst (main scenario_runtime ?argv0))
                = runtime_calls (fst (main scenario_runtime ?argv1))
            \<and> stderr_of (fst (main scenario_runtime ?argv0)) = stderr_of (fst (main scenario_runtime ?argv1))
            \<and> snd (main scenario_runtime ?argv0) = snd (main scenario_runtime ?argv1)
            \<and> remove1 (''alloc 0 '' @ [newline]) (stdout_of (fst (main scenario_runtime ?argv0)))
                = stdout_of (fst (main scenario_runtime ?argv1))
            \<and> (device_selected scenario_runtime ?argv0
                 \<longrightarrow> ''alloc 0 '' @ [newline] \<in> set (stdout_of (fst (main scenario_runtime ?argv0))))"
    by blast
  moreover have "checkCmdLineFlag ?argv0 ''alloc_mem_gb'' \<and> getCmdLineArgumentInt ?argv0 ''alloc_mem_gb'' = 0
        \<and> \<not> checkCmdLineFlag ?argv1 ''alloc_mem_gb''
        \<and> help_requested ?argv0 = help_requested ?argv1
        \<and> checkCmdLineFlag ?argv0 ''device'' = checkCmdLineFlag ?argv1 ''device''
        \<and> getCmdLineArgumentInt ?argv0 ''device'' = getCmdLineArgumentInt ?argv1 ''device''"
    using scenario_alloc_zero scenario_device_0 flags by simp
  ultimately show ?thesis
    using absent zero sel by blast
qed

lemma format_ld_scenario:
  "format_ld 10000000000 = ''10000000000''" "format_ld 20000000000 = ''20000000000''"
  by (simp_all add: format_ld_def show_nat.simps char_of_eq_iff)

text \<open>
  The two runs are not identical: on the example runtime the run with
  \<open>--alloc_mem_gb=0\<close> writes three lines to standard output, the second of them
  \<open>alloc 0\<close>, and the run without the flag writes two.
\<close>

theorem default_allocation_law_counterexample:
  "checkCmdLineFlag [''cudaMemTest'', ''--device=0'', ''--alloc_mem_gb=0''] ''alloc_mem_gb''
   \<and> getCmdLineArgumentInt [''cudaMemTest'', ''--device=0'', ''--alloc_mem_gb=0''] ''alloc_mem_gb'' = 0
   \<and> \<not> checkCmdLineFlag [''cudaMemTest'', ''--device=0''] ''alloc_mem_gb''
   \<and> stdout_of (fst (main scenario_runtime [''cudaMemTest'', ''--device=0'', ''--alloc_mem_gb=0''])) =
       [''free mem 10000000000 total mem 20000000000 '' @ [newline],
        ''alloc 0 '' @ [newline],
        ''CUDA memory test PASSED'' @ [newline]]
   \<and> stdout_of (fst (main scenario_runtime [''cudaMemTest'', ''--device=0''])) =
       [''free mem 10000000000 total mem 20000000000 '' @ [newline],
        ''CUDA memory test PASSED'' @ [newline]]
   \<and> main scenario_runtime [''cudaMemTest'', ''--device=0'', ''--alloc_mem_gb=0'']
       \<noteq> main scenario_runtime [''cudaMemTest'', ''--device=0'']"
proof -
  let ?argv0 = "[''cudaMemTest'', ''--device=0'', ''--alloc_mem_gb=0'']"
  let ?argv1 = "[''cudaMemTest'', ''--device=0'']"
  have sel0: "device_selected scenario_runtime ?argv0"
    by (simp add: device_selected_def device_requested_def scenario_alloc_zero scenario_runtime_def)
  have sel1: "device_selected scenario_runtime ?argv1"
    by (simp add: scenario_selected)
  have req0: "requested_size_of ?argv0 = ([Stdout (''alloc 0 '' @ [newline])], 1000000000)"
    using requested_size_of_zero_out [OF scenario_alloc_zero(1,2)]
      requested_size_of_zero [OF scenario_alloc_zero(1,2)]
    by (simp add: prod_eq_iff)
  have sz0: "allocation_size scenario_runtime ?argv0 = 1000000000"
    by (simp add: allocation_size_def req0 scenario_clamp scenario_runtime_def)
  have sz1: "allocation_size scenario_runtime ?argv1 = 1000000000"
    by (simp add: scenario_allocation_size)
  have test: "alloc_fill_free scenario_runtime 1000000000 =
      ([Call_cudaMalloc 1000000000, Call_cudaMemset 0xf 1000000000, Call_cudaFree,
        Stdout (''CUDA memory test PASSED'' @ [newline])], 0)"
    by (rule alloc_fill_free_passes) (simp_all add: scenario_runtime_def)
  have info: "rt_cudaMemGetInfo scenario_runtime = (cudaSuccess, 10000000000, 20000000000)"
    by (simp add: scenario_runtime_def)
  have out0: "stdout_of (fst (main scenario_runtime ?argv0)) =
       [''free mem 10000000000 total mem 20000000000 '' @ [newline],
        ''alloc 0 '' @ [newline],
        ''CUDA memory test PASSED'' @ [newline]]"
    by (simp add: main_device_selected [OF sel0] stdout_of_main_after_device sz0 test req0
        info scenario_clamp format_ld_scenario)
  have out1: "stdout_of (fst (main scenario_runtime ?argv1)) =
       [''free mem 10000000000 total mem 20000000000 '' @ [newline],
        ''CUDA memory test PASSED'' @ [newline]]"
    by (simp add: main_device_selected [OF sel1] stdout_of_main_after_device sz1 test
        scenario_requested info scenario_clamp format_ld_scenario)
  have "main scenario_runtime ?argv0 \<noteq> main scenario_runtime ?argv1"
  proof
    assume "main scenario_runtime ?argv0 = main scenario_runtime ?argv1"
    then have "stdout_of (fst (main scenario_runtime ?argv0))
        = stdout_of (fst (main scenario_runtime ?argv1))"
      by (simp only:)
    then show False
      by (simp only: out0 out1) simp
  qed
  with scenario_alloc_zero(1,2) scenario_device_0(3) out0 out1 show ?thesis
    by blast
qed

text \<open>
  Claim C9. For \<open>["--device3"]\<close> the name \<open>device\<close> is not found, because the argument
  without its dashes is one character longer than the name; \<open>main\<close> therefore prints the
  usage text of the no-device path and exits with status 0, and the runtime is never
  called, so device 3 is not selected.
\<close>

theorem concatenated_device_is_not_a_flag:
  "\<not> checkCmdLineFlag [prog, ''--device3''] ''device''
   \<and> main rt [prog, ''--device3''] =
       ([Stdout (''A simple cuda memory testing tool'' @ [newline]),
         Stdout (''Usage --device=n (n >= 0 for deviceID)'' @ [newline]),
         Stdout (''      --alloc_mem_gb=k (allocates k GB)'' @ [newline])], 0)
   \<and> runtime_calls (fst (main rt [prog, ''--device3''])) = []"
proof -
  have no_help: "\<not> help_requested [prog, ''--device3'']"
    by (simp add: help_requested_def lexer_defs)
  have no_device: "\<not> checkCmdLineFlag [prog, ''--device3''] ''device''"
    by (simp add: lexer_defs)
  show ?thesis
    using no_device by (simp add: main_no_device [OF no_help no_device])
qed

lemma stdout_of_main_after_device_no_usage:
  "Stdout (''A simple cuda memory testing tool'' @ [newline]) \<notin> set (fst (main_after_device rt argv))"
  by (simp add: main_after_device_eq requested_size_of_def clamp_size_def alloc_fill_free_def Let_def)

text \<open>
  Claim C10. For \<open>["--device"]\<close> the flag \<open>device\<close> is found and its value is 0. The first
  event of the run is the call \<open>cudaSetDevice(0)\<close> and the usage text is not printed; when
  that call succeeds the run continues with the rest of the diagnostic, whose next runtime
  calls are \<open>cudaMemGetInfo\<close> and \<open>cudaMalloc\<close>.
\<close>

theorem bare_device_flag_selects_device_0:
  "checkCmdLineFlag [prog, ''--device''] ''device''
   \<and> getCmdLineArgumentInt [prog, ''--device''] ''device'' = 0
   \<and> hd (fst (main rt [prog, ''--device''])) = Call_cudaSetDevice 0
   \<and> Stdout (''A simple cuda memory testing tool'' @ [newline])
       \<notin> set (fst (main rt [prog, ''--device'']))
   \<and> (rt_cudaSetDevice rt 0 = cudaSuccess
        \<longrightarrow> main rt [prog, ''--device''] =
              (Call_cudaSetDevice 0 # fst (main_after_device rt [prog, ''--device'']),
               snd (main_after_device rt [prog, ''--device'']))
            \<and> take 3 (runtime_calls (fst (main rt [prog, ''--device'']))) =
                [Call_cudaSetDevice 0, Call_cudaMemGetInfo,
                 Call_cudaMalloc (allocation_size rt [prog, ''--device''])])"
proof -
  let ?argv = "[prog, ''--device'']"
  have flag: "checkCmdLineFlag ?argv ''device''"
    by (simp add: lexer_defs)
  have val: "getCmdLineArgumentInt ?argv ''device'' = 0"
    by (simp add: lexer_defs)
  have "\<not> help_requested ?argv"
    by (simp add: help_requested_def lexer_defs)
  with flag have req: "device_requested ?argv"
    by (simp add: device_requested_def)
  have run: "main rt ?argv =
      (if rt_cudaSetDevice rt 0 = cudaSuccess
       then (Call_cudaSetDevice 0 # fst (main_after_device rt ?argv), snd (main_after_device rt ?argv))
       else ([Call_cudaSetDevice 0,
              Stdout (''Invalid device id or device already in use'' @ [newline])], 1))"
  proof (cases "rt_cudaSetDevice rt 0 = cudaSuccess")
    case True
    with req val have "device_selected rt ?argv" by (simp add: device_selected_def)
    then show ?thesis using True val by (simp add: main_device_selected)
  next
    case False
    then show ?thesis using req val by (simp add: main_bad_device)
  qed
  have first: "hd (fst (main rt ?argv)) = Call_cudaSetDevice 0"
    by (simp add: run)
  have no_usage: "Stdout (''A simple cuda memory testing tool'' @ [newline]) \<notin> set (fst (main rt ?argv))"
    using stdout_of_main_after_device_no_usage [of rt ?argv] by (simp add: run)
  have full: "main rt ?argv = (Call_cudaSetDevice 0 # fst (main_after_device rt ?argv),
                               snd (main_after_device rt ?argv))
      \<and> take 3 (runtime_calls (fst (main rt ?argv))) =
          [Call_cudaSetDevice 0, Call_cudaMemGetInfo, Call_cudaMalloc (allocation_size rt ?argv)]"
    if ok: "rt_cudaSetDevice rt 0 = cudaSuccess"
  proof -
    from ok req val have sel: "device_selected rt ?argv" by (simp add: device_selected_def)
    obtain rest where rest:
      "runtime_calls (fst (alloc_fill_free rt (allocation_size rt ?argv))) =
         Call_cudaMalloc (allocation_size rt ?argv) # rest"
      using runtime_calls_alloc_fill_free_hd by blast
    show ?thesis
      using sel val by (simp add: main_device_selected runtime_calls_main_after_device rest)
  qed
  from flag val first no_usage full show ?thesis by blast
qed

theorem bare_device_flag_selects_device_0_witness:
  "main scenario_runtime [''cudaMemTest'', ''--device''] =
     (Call_cudaSetDevice 0 # fst (main_after_device scenario_runtime [''cudaMemTest'', ''--device'']),
      snd (main_after_device scenario_runtime [''cudaMemTest'', ''--device'']))
   \<and> take 3 (runtime_calls (fst (main scenario_runtime [''cudaMemTest'', ''--device'']))) =
       [Call_cudaSetDevice 0, Call_cudaMemGetInfo, Call_cudaMalloc 1000000000]"
proof -
  have "\<not> checkCmdLineFlag [''cudaMemTest'', ''--device''] ''alloc_mem_gb''"
    by (simp add: lexer_defs)
  then have "requested_size_of [''cudaMemTest'', ''--device''] = ([], 1000000000)"
    by (simp add: requested_size_of_def ALLOC_MEM_OPT_STR_def DEFAULT_ALLOC_MEM_IN_GB_def)
  then have sz: "allocation_size scenario_runtime [''cudaMemTest'', ''--device''] = 1000000000"
    by (simp add: allocation_size_def scenario_clamp scenario_runtime_def)
  have ok: "rt_cudaSetDevice scenario_runtime 0 = cudaSuccess"
    by (simp add: scenario_runtime_def)
  from bare_device_flag_selects_device_0 [of "''cudaMemTest''" scenario_runtime] ok
  have "main scenario_runtime [''cudaMemTest'', ''--device''] =
      (Call_cudaSetDevice 0 # fst (main_after_device scenario_runtime [''cudaMemTest'', ''--device'']),
       snd (main_after_device scenario_runtime [''cudaMemTest'', ''--device'']))
    \<and> take 3 (runtime_calls (fst (main scenario_runtime [''cudaMemTest'', ''--device'']))) =
       [Call_cudaSetDevice 0, Call_cudaMemGetInfo,
        Call_cudaMalloc (allocation_size scenario_runtime [''cudaMemTest'', ''--device''])]"
    by blast
  then show ?thesis
    unfolding sz .
qed

text \<open>
  The flag \<open>help\<close> is found in any position, with any number of dashes and in any case,
  and the run is then the usage text alone.
\<close>

lemma main_help_flag:
  assumes "map tolower s = ''help''"
  shows "main rt (prog # before @ (replicate n (CHR ''-'') @ s) # after) =
     ([Stdout (''A simple cuda memory testing tool'' @ [newline]),
       Stdout (''Usage --device=n (n >= 0 for deviceID),'' @ [newline]),
       Stdout (''      --alloc_mem_gb=k (allocates k GB)'' @ [newline])], 0)"
proof -
  have fixed: "map tolower ''help'' = ''help''"
    by (simp add: tolower_def)
  have "map tolower s = map tolower ''help''"
    using assms fixed by simp
  moreover have "2 \<le> length ''help''"
    by simp
  moreover have "CHR ''='' \<notin> set s"
    using assms by (rule lowered_notin) simp_all
  moreover have "hd s \<noteq> CHR ''-''"
    using assms by (rule lowered_hd) simp_all
  moreover have "([]::string) = [] \<or> hd ([]::string) = CHR ''=''"
    by simp
  ultimately have
    "checkCmdLineFlag (prog # before @ (replicate n (CHR ''-'') @ s @ []) # after) ''help''"
    by (rule checkCmdLineFlag_token)
  then have "help_requested (prog # before @ (replicate n (CHR ''-'') @ s) # after)"
    by (simp add: help_requested_def)
  then show ?thesis by (rule main_help)
qed

text \<open>
  Claim C3 (help short-circuit: \<open>--help\<close> and \<open>-?\<close> print the usage text and exit with
  status 0 without any call of the runtime). For \<open>help\<close> this is the lemma above. For \<open>-?\<close>
  the code does otherwise: \<open>stringRemoveDelimiter\<close> gives 0 for \<open>-?\<close> (one dash, and a
  string of length 2), so the dash is not removed, \<open>-?\<close> is compared with \<open>?\<close>, and the flag
  is not found. For \<open>["-?", "--device=0"]\<close> help is not requested and the first event of
  the run is \<open>cudaSetDevice(0)\<close>; on the example runtime the whole diagnostic runs and
  passes.
\<close>

theorem question_mark_flag_not_recognised:
  "stringRemoveDelimiter (CHR ''-'') ''-?'' = 0
   \<and> \<not> checkCmdLineFlag [prog, ''-?'', ''--device=0''] ''?''
   \<and> \<not> help_requested [prog, ''-?'', ''--device=0'']
   \<and> hd (fst (main rt [prog, ''-?'', ''--device=0''])) = Call_cudaSetDevice 0
   \<and> main scenario_runtime [prog, ''-?'', ''--device=0''] =
       ([Call_cudaSetDevice 0, Call_cudaMemGetInfo,
         Stdout (''free mem 10000000000 total mem 20000000000 '' @ [newline]),
         Call_cudaMalloc 1000000000, Call_cudaMemset 0xf 1000000000, Call_cudaFree,
         Stdout (''CUDA memory test PASSED'' @ [newline])], 0)"
proof -
  let ?argv = "[prog, ''-?'', ''--device=0'']"
  have start: "stringRemoveDelimiter (CHR ''-'') ''-?'' = 0"
    by (simp add: stringRemoveDelimiter_def)
  have no_q: "\<not> checkCmdLineFlag ?argv ''?''"
    by (simp add: lexer_defs)
  have no_help: "\<not> help_requested ?argv"
    by (simp add: help_requested_def lexer_defs)
  have flag: "checkCmdLineFlag ?argv ''device''"
    by (simp add: lexer_defs)
  have val: "getCmdLineArgumentInt ?argv ''device'' = 0"
    by (simp add: lexer_defs)
  have no_alloc: "\<not> checkCmdLineFlag ?argv ''alloc_mem_gb''"
    by (simp add: lexer_defs)
  from no_help flag have req: "device_requested ?argv"
    by (simp add: device_requested_def)
  have first: "hd (fst (main rt ?argv)) = Call_cudaSetDevice 0"
  proof (cases "rt_cudaSetDevice rt 0 = cudaSuccess")
    case True
    with req val have "device_selected rt ?argv" by (simp add: device_selected_def)
    then show ?thesis using val by (simp add: main_device_selected)
  next
    case False
    then show ?thesis using req val by (simp add: main_bad_device)
  qed
  have sel: "device_selected scenario_runtime ?argv"
    using req val by (simp add: device_selected_def scenario_runtime_def)
  have requested: "requested_size_of ?argv = ([], 1000000000)"
    using no_alloc by (simp add: requested_size_of_def ALLOC_MEM_OPT_STR_def DEFAULT_ALLOC_MEM_IN_GB_def)
  have sz: "allocation_size scenario_runtime ?argv = 1000000000"
    by (simp add: allocation_size_def requested scenario_clamp scenario_runtime_def)
  have test: "alloc_fill_free scenario_runtime 1000000000 =
      ([Call_cudaMalloc 1000000000, Call_cudaMemset 0xf 1000000000, Call_cudaFree,
        Stdout (''CUDA memory test PASSED'' @ [newline])], 0)"
    by (rule alloc_fill_free_passes) (simp_all add: scenario_runtime_def)
  have report: "format_ld 10000000000 = ''10000000000''" "format_ld 20000000000 = ''20000000000''"
    by (simp_all add: format_ld_def show_nat.simps char_of_eq_iff)
  have run: "main scenario_runtime ?argv =
       ([Call_cudaSetDevice 0, Call_cudaMemGetInfo,
         Stdout (''free mem 10000000000 total mem 20000000000 '' @ [newline]),
         Call_cudaMalloc 1000000000, Call_cudaMemset 0xf 1000000000, Call_cudaFree,
         Stdout (''CUDA memory test PASSED'' @ [newline])], 0)"
    using val
    by (simp add: main_device_selected [OF sel] main_after_device_eq sz test requested
        scenario_clamp) (simp add: scenario_runtime_def report scenario_clamp)
  from start no_q no_help first run show ?thesis by blast
qed

section \<open>Bounds on the rounding\<close>

lemma bitlen_bounds: "0 < n \<Longrightarrow> 2 ^ (bitlen n - 1) \<le> n \<and> n < 2 ^ bitlen n"
proof (induction n rule: bitlen.induct)
  case (1 n)
  show ?case
  proof (cases "n div 2 = 0")
    case True
    with "1.prems" have "n = 1" by (simp add: div_eq_0_iff) 
    then show ?thesis by simp
  next
    case False
    then have pos: "0 < n div 2" by simp
    with "1.IH" "1.prems" have IH: "2 ^ (bitlen (n div 2) - 1) \<le> n div 2" "n div 2 < 2 ^ bitlen (n div 2)"
      by simp_all
    have len: "bitlen n = Suc (bitlen (n div 2))"
      using "1.prems" by (subst bitlen.simps) simp
    have "0 < bitlen (n div 2)"
      using pos by (subst bitlen.simps) simp
    then have "(2::nat) ^ (bitlen n - 1) = 2 * 2 ^ (bitlen (n div 2) - 1)"
      by (simp add: len flip: power_Suc)
    also have "\<dots> \<le> 2 * (n div 2)" using IH(1) by simp
    also have "\<dots> \<le> n" by simp
    finally have lower: "2 ^ (bitlen n - 1) \<le> n" .
    have "n < 2 * (n div 2) + 2" by presburger
    also have "\<dots> \<le> 2 * 2 ^ bitlen (n div 2)" using IH(2) by simp
    finally have "n < 2 ^ bitlen n" by (simp add: len)
    with lower show ?thesis by simp
  qed
qed

lemma bitlen_le: "n < 2 ^ m \<Longrightarrow> bitlen n \<le> m"
proof (cases "n = 0")
  case True
  then show ?thesis by simp
next
  case False
  assume "n < 2 ^ m"
  moreover from False have "2 ^ (bitlen n - 1) \<le> n" using bitlen_bounds by simp
  ultimately have lt: "(2::nat) ^ (bitlen n - 1) < 2 ^ m" by (rule le_less_trans [rotated])
  from lt have "bitlen n - 1 < m" by simp
  then show ?thesis by simp
qed

lemma bitlen_ge: "2 ^ m \<le> n \<Longrightarrow> m < bitlen n"
proof -
  assume a: "2 ^ m \<le> n"
  have "(0::nat) < 2 ^ m" by simp
  then have "0 < n" using a by (rule less_le_trans)
  then have "n < 2 ^ bitlen n" using bitlen_bounds by simp
  with a have lt: "(2::nat) ^ m < 2 ^ bitlen n" by (rule le_less_trans)
  from lt show ?thesis by simp
qed

text \<open>The rounded value lies between the two neighbouring multiples of the unit in the last place.\<close>

lemma round_to_double_small: "n < 2 ^ 53 \<Longrightarrow> round_to_double n = n"
  by (simp add: round_to_double_def)

lemma round_to_double_lower:
  "(n div 2 ^ (bitlen n - 53)) * 2 ^ (bitlen n - 53) \<le> round_to_double n"
  by (simp add: round_to_double_def Let_def)

lemma round_to_double_upper:
  "round_to_double n \<le> n + 2 ^ (bitlen n - 53)"
proof -
  have "(n div 2 ^ (bitlen n - 53)) * 2 ^ (bitlen n - 53) \<le> n" by simp
  then have "(n div 2 ^ (bitlen n - 53)) * 2 ^ (bitlen n - 53) \<le> n + 2 ^ (bitlen n - 53)"
    by (rule trans_le_add1)
  then show ?thesis by (simp add: round_to_double_def Let_def)
qed

lemma round_to_double_ge_multiple:
  assumes "k \<le> n" "2 ^ (bitlen n - 53) dvd k"
  shows "k \<le> round_to_double n"
proof -
  from assms(2) obtain j where j: "k = 2 ^ (bitlen n - 53) * j" ..
  with assms(1) have "j \<le> n div 2 ^ (bitlen n - 53)"
    by (simp add: less_eq_div_iff_mult_less_eq mult.commute)
  then have "k \<le> (n div 2 ^ (bitlen n - 53)) * 2 ^ (bitlen n - 53)"
    using j by simp
  then show ?thesis using round_to_double_lower [of n] by simp
qed

lemma round_to_double_relative:
  "2 ^ 52 * round_to_double n \<le> (2 ^ 52 + 1) * n"
proof (cases "n < 2 ^ 53")
  case True
  then show ?thesis by (simp add: round_to_double_small)
next
  case False
  then have big: "2 ^ 53 \<le> n" by simp
  then have len: "53 < bitlen n" by (rule bitlen_ge)
  have "0 < n" using big by (simp add: less_le_trans [of 0 "2 ^ 53"])
  have low: "2 ^ (bitlen n - 1) \<le> n" using \<open>0 < n\<close> bitlen_bounds by simp
  have e: "bitlen n - 1 = 52 + (bitlen n - 53)"
    using len by simp
  have "(2::nat) ^ (bitlen n - 1) = 2 ^ 52 * 2 ^ (bitlen n - 53)"
    by (subst e) (rule power_add)
  with low have unit: "2 ^ 52 * 2 ^ (bitlen n - 53) \<le> n" by (simp only:)
  have "2 ^ 52 * round_to_double n \<le> 2 ^ 52 * (n + 2 ^ (bitlen n - 53))"
    using round_to_double_upper [of n] by simp
  also have "\<dots> = 2 ^ 52 * n + 2 ^ 52 * 2 ^ (bitlen n - 53)"
    by (simp add: algebra_simps)
  also have "\<dots> \<le> 2 ^ 52 * n + n" using unit by simp
  finally show ?thesis by (simp add: algebra_simps)
qed

section \<open>The tenth of the free memory\<close>

lemma ten_double_tenth: "10 * double_tenth = 2 ^ 55 + 2"
  by (simp add: double_tenth_def)

lemma double_tenth_less: "double_tenth < 2 ^ 52"
  by (simp add: double_tenth_def)

text \<open>Below \<open>2^53\<close> the conversion is exact and the product is never less than the true tenth.\<close>

lemma tenth_lower:
  assumes "f < 2 ^ 53"
  shows "f div 10 \<le> round_to_double (double_tenth * round_to_double f) div 2 ^ 55"
proof -
  let ?N = "double_tenth * f"
  let ?K = "2 ^ 55 * (f div 10)"
  have "10 * ?K = 2 ^ 55 * (10 * (f div 10))" by simp
  also have "\<dots> \<le> 2 ^ 55 * f" by (intro mult_le_mono2) simp
  also have "\<dots> \<le> (2 ^ 55 + 2) * f" by (intro mult_le_mono1) simp
  also have "\<dots> = 10 * ?N" by (simp only: ten_double_tenth [symmetric] mult.assoc)
  finally have le: "?K \<le> ?N" by simp
  have "?N < 2 ^ 52 * 2 ^ 53"
  proof (cases "f = 0")
    case True
    then show ?thesis by simp
  next
    case False
    then have "double_tenth * f < 2 ^ 52 * f" using double_tenth_less by simp
    also have "\<dots> \<le> 2 ^ 52 * 2 ^ 53" using assms by (intro mult_le_mono2) simp
    finally show ?thesis .
  qed
  then have "?N < 2 ^ 105" by simp
  then have "bitlen ?N \<le> 105" by (rule bitlen_le)
  then have "bitlen ?N - 53 \<le> 55" by simp
  then have "(2::nat) ^ (bitlen ?N - 53) dvd 2 ^ 55" by (rule le_imp_power_dvd)
  then have "2 ^ (bitlen ?N - 53) dvd ?K" by (rule dvd_mult2)
  with le have "?K \<le> round_to_double ?N" by (rule round_to_double_ge_multiple)
  then have "?K div 2 ^ 55 \<le> round_to_double ?N div 2 ^ 55" by (rule div_le_mono)
  then show ?thesis using assms by (simp add: round_to_double_small)
qed

text \<open>For every value of a \<open>size_t\<close> the product is at most a quarter of the free memory.\<close>

lemma tenth_upper:
  "4 * (round_to_double (double_tenth * round_to_double f) div 2 ^ 55) \<le> f"
proof -
  let ?D = "round_to_double f"
  let ?R = "round_to_double (double_tenth * ?D)"
  have D: "2 ^ 52 * ?D \<le> (2 ^ 52 + 1) * f" by (rule round_to_double_relative)
  have R: "2 ^ 52 * ?R \<le> (2 ^ 52 + 1) * (double_tenth * ?D)" by (rule round_to_double_relative)
  have "2 ^ 52 * (2 ^ 52 * ?R) \<le> 2 ^ 52 * ((2 ^ 52 + 1) * (double_tenth * ?D))"
    using R by (rule mult_le_mono2)
  also have "\<dots> = ((2 ^ 52 + 1) * double_tenth) * (2 ^ 52 * ?D)"
    by (simp only: mult_ac)
  also have "\<dots> \<le> ((2 ^ 52 + 1) * double_tenth) * ((2 ^ 52 + 1) * f)"
    using D by (rule mult_le_mono2)
  also have "\<dots> = ((2 ^ 52 + 1) * double_tenth * (2 ^ 52 + 1)) * f"
    by (simp only: mult_ac)
  also have "\<dots> \<le> 2 ^ 157 * f"
    by (intro mult_le_mono1) (simp add: double_tenth_def)
  finally have "2 ^ 104 * ?R \<le> 2 ^ 157 * f"
    by (simp only: mult.assoc [symmetric] power_add [symmetric]) simp
  then have "2 ^ 104 * ?R \<le> 2 ^ 104 * (2 ^ 53 * f)" by simp
  then have Rf: "?R \<le> 2 ^ 53 * f" by simp
  have "2 ^ 55 * (?R div 2 ^ 55) \<le> ?R" by simp
  then have "2 ^ 55 * (?R div 2 ^ 55) \<le> 2 ^ 53 * f" using Rf by (rule le_trans)
  then show ?thesis by simp
qed

text \<open>Below \<open>2^49\<close> the product, cut to an integer, is exactly the tenth rounded down.\<close>

lemma tenth_exact:
  assumes "f < 2 ^ 49"
  shows "round_to_double (double_tenth * round_to_double f) div 2 ^ 55 = f div 10"
proof (rule antisym)
  have "f < 2 ^ 53" using assms by simp
  then show "f div 10 \<le> round_to_double (double_tenth * round_to_double f) div 2 ^ 55"
    by (rule tenth_lower)
next
  let ?N = "double_tenth * f"
  let ?R = "round_to_double ?N"
  have small: "round_to_double f = f" using assms by (simp add: round_to_double_small)
  have "?N < 2 ^ 52 * 2 ^ 49"
  proof (cases "f = 0")
    case True
    then show ?thesis by simp
  next
    case False
    then have "double_tenth * f < 2 ^ 52 * f" using double_tenth_less by simp
    also have "\<dots> \<le> 2 ^ 52 * 2 ^ 49" using assms by (intro mult_le_mono2) simp
    finally show ?thesis .
  qed
  then have "?N < 2 ^ 101" by simp
  then have "bitlen ?N \<le> 101" by (rule bitlen_le)
  then have "bitlen ?N - 53 \<le> 48" by simp
  then have "(2::nat) ^ (bitlen ?N - 53) \<le> 2 ^ 48" by (rule power_increasing) simp
  with round_to_double_upper [of ?N] have R: "?R \<le> ?N + 2 ^ 48" by simp
  have f: "f \<le> 10 * (f div 10) + 9" by presburger
  have "10 * ?R \<le> 10 * ?N + 10 * 2 ^ 48" using R by simp
  also have "\<dots> = (2 ^ 55 + 2) * f + 10 * 2 ^ 48"
    by (simp only: ten_double_tenth [symmetric] mult.assoc)
  also have "\<dots> \<le> (2 ^ 55 + 2) * (10 * (f div 10) + 9) + 10 * 2 ^ 48"
    using f by (intro add_le_mono1 mult_le_mono2)
  also have "\<dots> < 10 * (2 ^ 55 * (f div 10 + 1))"
  proof -
    have "f div 10 < 2 ^ 49" using assms by (simp add: div_less_dividend less_imp_le le_less_trans [OF div_le_dividend])
    then show ?thesis by simp
  qed
  finally have "?R < 2 ^ 55 * (f div 10 + 1)" by simp
  then have "?R div 2 ^ 55 < f div 10 + 1"
    by (simp add: less_mult_imp_div_less mult.commute)
  then show "round_to_double (double_tenth * round_to_double f) div 2 ^ 55 \<le> f div 10"
    by (simp add: small)
qed

section \<open>The ceiling on words\<close>

lemma unat_tenth_of:
  "unat (tenth_of f) = round_to_double (double_tenth * round_to_double (unat f)) div 2 ^ 55"
proof -
  let ?T = "round_to_double (double_tenth * round_to_double (unat f)) div 2 ^ 55"
  have "4 * ?T \<le> unat f" by (rule tenth_upper)
  moreover have "unat f < 2 ^ 64" using unsigned_less [of f] by simp
  ultimately have "?T < 2 ^ 64" by simp
  then have "?T mod 2 ^ 64 = ?T" by simp
  then show ?thesis by (simp add: tenth_of_def unat_of_nat)
qed

lemma tenth_of_quarter: "4 * unat (tenth_of f) \<le> unat f"
  by (simp only: unat_tenth_of tenth_upper)

lemma unat_max_alloc_size_of:
  "unat (max_alloc_size_of f) = unat f - unat (tenth_of f)"
proof -
  have "unat (tenth_of f) \<le> unat f" using tenth_of_quarter [of f] by simp
  then have "tenth_of f \<le> f" by (simp add: word_le_nat_alt)
  then show ?thesis by (simp add: max_alloc_size_of_def unat_sub)
qed

lemma max_alloc_size_of_pos: "0 < f \<Longrightarrow> 0 < max_alloc_size_of f"
proof -
  assume "0 < f"
  then have "0 < unat f" by (simp add: word_less_nat_alt)
  with tenth_of_quarter [of f] have "0 < unat f - unat (tenth_of f)" by simp
  then show ?thesis by (simp add: word_less_nat_alt unat_max_alloc_size_of)
qed

lemma max_alloc_size_of_le:
  "unat f < 2 ^ 53 \<Longrightarrow> unat (max_alloc_size_of f) \<le> unat f - unat f div 10"
  using tenth_lower [of "unat f"] by (simp add: unat_max_alloc_size_of unat_tenth_of)

lemma max_alloc_size_of_exact:
  "unat f < 2 ^ 49 \<Longrightarrow> unat (max_alloc_size_of f) = unat f - unat f div 10"
  using tenth_exact [of "unat f"] by (simp add: unat_max_alloc_size_of unat_tenth_of)

lemma snd_clamp_size:
  "snd (clamp_size f r) = (if r > max_alloc_size_of f then max_alloc_size_of f else r)"
  by (simp add: clamp_size_def Let_def)

section \<open>The requested size\<close>

lemma atoi_range: "- (2 ^ 31) \<le> atoi s \<and> atoi s < 2 ^ 31"
  using signed_take_bit_int_greater_eq_minus_exp [of 31 "strtol10 s"]
    signed_take_bit_int_less_exp [of 31 "strtol10 s"]
  by (simp add: atoi_def)

lemma getCmdLineArgumentInt_loop_range:
  assumes "- (2 ^ 31) \<le> snd st \<and> snd st < 2 ^ 31"
  shows "- (2 ^ 31) \<le> snd (getCmdLineArgumentInt_loop args string_ref st)
    \<and> snd (getCmdLineArgumentInt_loop args string_ref st) < 2 ^ 31"
  using assms
proof (induction args arbitrary: st)
  case Nil
  then show ?case by simp
next
  case (Cons arg args)
  obtain bFound val where st: "st = (bFound, val)" by (cases st)
  have a: "- (2 ^ 31) \<le> snd (True, atoi t) \<and> snd (True, atoi t) < 2 ^ 31" for t
    using atoi_range [of t] by simp
  have z: "- (2 ^ 31) \<le> snd (True, 0::int) \<and> snd (True, 0::int) < 2 ^ 31"
    by simp
  show ?case
    unfolding st getCmdLineArgumentInt_loop.simps Let_def
    using Cons.IH [OF a] Cons.IH [OF z] Cons.IH [OF Cons.prems [unfolded st]]
    by (simp split: if_split)
qed

lemma getCmdLineArgumentInt_range:
  "- (2 ^ 31) \<le> getCmdLineArgumentInt argv string_ref
   \<and> getCmdLineArgumentInt argv string_ref < 2 ^ 31"
proof -
  have init: "- (2 ^ 31) \<le> snd (False, - 1 :: int) \<and> snd (False, - 1 :: int) < 2 ^ 31"
    by simp
  from getCmdLineArgumentInt_loop_range [OF init, of "drop 1 argv" string_ref]
  show ?thesis
    by (auto simp add: getCmdLineArgumentInt_def split: prod.splits if_splits)
qed

lemma requested_gb_range:
  "requested_gb argv \<noteq> 0 \<and> - (2 ^ 31) \<le> requested_gb argv \<and> requested_gb argv < 2 ^ 31"
  using getCmdLineArgumentInt_range [of argv ALLOC_MEM_OPT_STR]
  by (simp add: requested_gb_def DEFAULT_ALLOC_MEM_IN_GB_def Let_def)

lemma word_of_int_eq_0_small:
  assumes "- (2 ^ 31) \<le> k" "k < 2 ^ 31"
  shows "(word_of_int k :: 64 word) = 0 \<longleftrightarrow> k = 0"
proof
  assume "(word_of_int k :: 64 word) = 0"
  then have "(2 ^ 64 :: int) dvd k" by (simp add: word_of_int_eq_0_iff)
  then show "k = 0" using assms by (auto dest: zdvd_imp_le zdvd_not_zless elim!: dvdE)
next
  assume "k = 0"
  then show "(word_of_int k :: 64 word) = 0" by simp
qed

lemma requested_size_of_gb:
  "snd (requested_size_of argv) = word_of_int (requested_gb argv) * 1000000000"
proof -
  have "(word_of_int (getCmdLineArgumentInt argv ALLOC_MEM_OPT_STR) :: 64 word) = 0
      \<longleftrightarrow> getCmdLineArgumentInt argv ALLOC_MEM_OPT_STR = 0"
    using getCmdLineArgumentInt_range [of argv ALLOC_MEM_OPT_STR]
    by (intro word_of_int_eq_0_small) simp_all
  then show ?thesis
    by (simp add: requested_size_of_def requested_gb_def Let_def DEFAULT_ALLOC_MEM_IN_GB_def)
qed

lemma small_multiple_zero:
  fixes x d :: int
  assumes "d dvd x" "\<bar>x\<bar> < d"
  shows "x = 0"
proof (rule ccontr)
  assume "x \<noteq> 0"
  then have "\<bar>d\<bar> \<le> \<bar>x\<bar>" using assms(1) by (rule dvd_imp_le_int)
  with assms(2) show False by simp
qed

lemma requested_size_of_product:
  "snd (requested_size_of argv) = word_of_int (requested_gb argv * 1000000000)"
  by (simp add: requested_size_of_gb)

lemma requested_size_of_nonzero: "snd (requested_size_of argv) \<noteq> 0"
proof
  assume "snd (requested_size_of argv) = 0"
  then have "(word_of_int (requested_gb argv * 1000000000) :: 64 word) = 0"
    by (simp only: requested_size_of_product)
  then have "(2::int) ^ LENGTH(64) dvd requested_gb argv * 1000000000"
    by (simp only: word_of_int_eq_0_iff)
  then have d: "(2 ^ 64 :: int) dvd requested_gb argv * 1000000000"
    by simp
  have "\<bar>requested_gb argv\<bar> \<le> 2147483648"
    using requested_gb_range [of argv] by (simp add: abs_le_iff)
  then have "\<bar>requested_gb argv\<bar> * 1000000000 < 18446744073709551616"
    by linarith
  then have "\<bar>requested_gb argv * 1000000000\<bar> < 2 ^ 64"
    by (simp add: abs_mult)
  with d have "requested_gb argv * 1000000000 = 0"
    by (rule small_multiple_zero)
  then show False using requested_gb_range [of argv] by simp
qed

lemma unat_requested_size_of:
  assumes "0 < requested_gb argv"
  shows "int (unat (snd (requested_size_of argv))) = requested_gb argv * 1000000000"
proof -
  have bounds: "0 \<le> requested_gb argv * 1000000000" "requested_gb argv * 1000000000 < 2 ^ 64"
    using assms requested_gb_range [of argv] by simp_all
  have "int (unat (snd (requested_size_of argv))) = uint (snd (requested_size_of argv))"
    by simp
  also have "\<dots> = uint (word_of_int (requested_gb argv * 1000000000) :: 64 word)"
    by (simp only: requested_size_of_product)
  also have "\<dots> = (requested_gb argv * 1000000000) mod 2 ^ LENGTH(64)"
    by (rule uint_word_of_int)
  also have "\<dots> = requested_gb argv * 1000000000"
    using bounds by simp
  finally show ?thesis .
qed

lemma nine_tenths_le:
  fixes f r :: nat
  assumes "9 * f < 10 * r"
  shows "f - f div 10 \<le> r"
proof -
  define q where "q = f div 10"
  define m where "m = f mod 10"
  have f: "f = 10 * q + m" and m: "m < 10"
    by (simp_all add: q_def m_def)
  from assms have "90 * q + 9 * m < 10 * r"
    by (simp add: f)
  with m have "9 * q + m \<le> r"
    by linarith
  moreover have "f - q = 9 * q + m"
    by (simp add: f)
  ultimately show ?thesis
    by (simp only: q_def [symmetric])
qed

section \<open>The allocation clamp law\<close>

lemma main_selected_calls:
  assumes "device_selected rt argv"
  shows "take 3 (runtime_calls (fst (main rt argv))) =
    [Call_cudaSetDevice (getCmdLineArgumentInt argv ''device''), Call_cudaMemGetInfo,
     Call_cudaMalloc (allocation_size rt argv)]"
proof -
  obtain rest where rest:
    "runtime_calls (fst (alloc_fill_free rt (allocation_size rt argv))) =
       Call_cudaMalloc (allocation_size rt argv) # rest"
    using runtime_calls_alloc_fill_free_hd by blast
  show ?thesis
    using assms by (simp add: main_device_selected runtime_calls_main_after_device rest)
qed

text \<open>
  Claim C1, with the bound that the double-precision product needs. Let \<open>free_memory\<close> be
  the free memory that \<open>main\<close> reads, greater than 0, and let the ceiling be
  \<open>free_memory - (size_t)(0.1 * free_memory)\<close> as \<open>main\<close> computes it. If \<open>free_memory\<close> is
  below \<open>2^53\<close> and the requested gigabytes times \<open>10^9\<close> exceed nine tenths of
  \<open>free_memory\<close>, the size passed to \<open>cudaMalloc\<close> is the ceiling. For every \<open>free_memory\<close>
  greater than 0 the size passed to \<open>cudaMalloc\<close> is at most the ceiling and greater than 0.
  Below \<open>2^49\<close> the ceiling is exactly \<open>free_memory\<close> minus its tenth rounded down. The size
  is the argument of the \<open>cudaMalloc\<close> call of the run.
\<close>

theorem allocation_clamp_law:
  "fst (snd (rt_cudaMemGetInfo rt)) = free_memory \<and> 0 < free_memory
   \<longrightarrow> (unat free_memory < 2 ^ 53
          \<and> 9 * int (unat free_memory) < 10 * (requested_gb argv * 1000000000)
          \<longrightarrow> allocation_size rt argv = max_alloc_size_of free_memory)
       \<and> allocation_size rt argv \<le> max_alloc_size_of free_memory
       \<and> 0 < allocation_size rt argv
       \<and> (unat free_memory < 2 ^ 49
            \<longrightarrow> unat (max_alloc_size_of free_memory) = unat free_memory - unat free_memory div 10)
       \<and> (device_selected rt argv
            \<longrightarrow> take 3 (runtime_calls (fst (main rt argv))) =
                  [Call_cudaSetDevice (getCmdLineArgumentInt argv ''device''), Call_cudaMemGetInfo,
                   Call_cudaMalloc (allocation_size rt argv)])"
proof (intro impI, elim conjE)
  assume free: "fst (snd (rt_cudaMemGetInfo rt)) = free_memory" and pos: "0 < free_memory"
  let ?r = "snd (requested_size_of argv)"
  let ?max = "max_alloc_size_of free_memory"
  have size: "allocation_size rt argv = (if ?r > ?max then ?max else ?r)"
    by (simp add: allocation_size_def free snd_clamp_size)
  have clamped: "allocation_size rt argv = ?max"
    if small: "unat free_memory < 2 ^ 53"
      and over: "9 * int (unat free_memory) < 10 * (requested_gb argv * 1000000000)"
  proof -
    have "0 < requested_gb argv"
    proof (rule ccontr)
      assume "\<not> 0 < requested_gb argv"
      then have "10 * (requested_gb argv * 1000000000) \<le> 0" by simp
      moreover have "0 \<le> 9 * int (unat free_memory)" by simp
      ultimately show False using over by linarith
    qed
    then have "int (unat ?r) = requested_gb argv * 1000000000"
      by (rule unat_requested_size_of)
    with over have "9 * int (unat free_memory) < 10 * int (unat ?r)" by (simp only:)
    then have "int (9 * unat free_memory) < int (10 * unat ?r)"
      by (simp only: of_nat_mult of_nat_numeral)
    then have "9 * unat free_memory < 10 * unat ?r" by (simp only: of_nat_less_iff)
    then have "unat free_memory - unat free_memory div 10 \<le> unat ?r" by (rule nine_tenths_le)
    with max_alloc_size_of_le [OF small] have "unat ?max \<le> unat ?r" by simp
    then have "?max \<le> ?r" by (simp add: word_le_nat_alt)
    then show ?thesis by (auto simp add: size)
  qed
  have below: "allocation_size rt argv \<le> ?max"
    by (simp add: size not_less)
  have nonzero: "0 < allocation_size rt argv"
    using max_alloc_size_of_pos [OF pos] requested_size_of_nonzero [of argv]
    by (simp add: size word_neq_0_conv)
  have exact: "unat ?max = unat free_memory - unat free_memory div 10" if "unat free_memory < 2 ^ 49"
    using that by (rule max_alloc_size_of_exact)
  have calls: "take 3 (runtime_calls (fst (main rt argv))) =
      [Call_cudaSetDevice (getCmdLineArgumentInt argv ''device''), Call_cudaMemGetInfo,
       Call_cudaMalloc (allocation_size rt argv)]" if "device_selected rt argv"
    using that by (rule main_selected_calls)
  from clamped below nonzero exact calls
  show "(unat free_memory < 2 ^ 53
          \<and> 9 * int (unat free_memory) < 10 * (requested_gb argv * 1000000000)
          \<longrightarrow> allocation_size rt argv = max_alloc_size_of free_memory)
       \<and> allocation_size rt argv \<le> max_alloc_size_of free_memory
       \<and> 0 < allocation_size rt argv
       \<and> (unat free_memory < 2 ^ 49
            \<longrightarrow> unat (max_alloc_size_of free_memory) = unat free_memory - unat free_memory div 10)
       \<and> (device_selected rt argv
            \<longrightarrow> take 3 (runtime_calls (fst (main rt argv))) =
                  [Call_cudaSetDevice (getCmdLineArgumentInt argv ''device''), Call_cudaMemGetInfo,
                   Call_cudaMalloc (allocation_size rt argv)])"
    by blast
qed

lemma scenario_alloc_50:
  "checkCmdLineFlag [''cudaMemTest'', ''--device=0'', ''--alloc_mem_gb=50''] ''alloc_mem_gb''"
  "getCmdLineArgumentInt [''cudaMemTest'', ''--device=0'', ''--alloc_mem_gb=50''] ''alloc_mem_gb'' = 50"
  "\<not> help_requested [''cudaMemTest'', ''--device=0'', ''--alloc_mem_gb=50'']"
  "checkCmdLineFlag [''cudaMemTest'', ''--device=0'', ''--alloc_mem_gb=50''] ''device''"
  "getCmdLineArgumentInt [''cudaMemTest'', ''--device=0'', ''--alloc_mem_gb=50''] ''device'' = 0"
  by (simp_all add: help_requested_def lexer_defs)

theorem allocation_clamp_law_witness:
  "allocation_size scenario_runtime [''cudaMemTest'', ''--device=0'', ''--alloc_mem_gb=50'']
     = 9000000000
   \<and> max_alloc_size_of 10000000000 = 9000000000
   \<and> take 3 (runtime_calls
         (fst (main scenario_runtime [''cudaMemTest'', ''--device=0'', ''--alloc_mem_gb=50'']))) =
       [Call_cudaSetDevice 0, Call_cudaMemGetInfo, Call_cudaMalloc 9000000000]"
proof -
  let ?argv = "[''cudaMemTest'', ''--device=0'', ''--alloc_mem_gb=50'']"
  have free: "fst (snd (rt_cudaMemGetInfo scenario_runtime)) = 10000000000"
    by (simp add: scenario_runtime_def)
  have gb: "requested_gb ?argv = 50"
    by (simp add: requested_gb_def scenario_alloc_50 ALLOC_MEM_OPT_STR_def)
  have sel: "device_selected scenario_runtime ?argv"
    by (simp add: device_selected_def device_requested_def scenario_alloc_50 scenario_runtime_def)
  have ceiling: "max_alloc_size_of 10000000000 = 9000000000"
    by (simp add: max_alloc_size_of_def tenth_of_scenario)
  from allocation_clamp_law [of scenario_runtime "10000000000" ?argv]
  have "allocation_size scenario_runtime ?argv = max_alloc_size_of 10000000000
      \<and> take 3 (runtime_calls (fst (main scenario_runtime ?argv))) =
          [Call_cudaSetDevice (getCmdLineArgumentInt ?argv ''device''), Call_cudaMemGetInfo,
           Call_cudaMalloc (allocation_size scenario_runtime ?argv)]"
    using free gb sel by simp
  then show ?thesis
    by (simp add: ceiling scenario_alloc_50)
qed

lemma tenth_of_large: "tenth_of 364444704444444441 = 36444470444444440"
  by (simp add: tenth_of_def round_to_double_def double_tenth_def Let_def)

text \<open>
  Without the bound the first part fails. With 364,444,704,444,444,441 bytes free and
  \<open>--alloc_mem_gb=328000234\<close> the request, 328,000,234,000,000,000 bytes, exceeds nine
  tenths of the free memory; the conversion to \<open>double\<close> rounds the free memory down, the
  ceiling comes out as 328,000,234,000,000,001, one above the request, and the raw request
  is passed to \<open>cudaMalloc\<close>. The request is neither the computed ceiling nor the free
  memory minus its tenth rounded down (328,000,233,999,999,997).
\<close>

theorem allocation_clamp_law_counterexample:
  "(0 :: 64 word) < 364444704444444441
   \<and> requested_gb [''cudaMemTest'', ''--device=0'', ''--alloc_mem_gb=328000234''] = 328000234
   \<and> 9 * int (unat (364444704444444441 :: 64 word)) < 10 * (328000234 * 1000000000)
   \<and> max_alloc_size_of 364444704444444441 = 328000234000000001
   \<and> unat (364444704444444441 :: 64 word) - unat (364444704444444441 :: 64 word) div 10
       = 328000233999999997
   \<and> allocation_size
         (scenario_runtime\<lparr>rt_cudaMemGetInfo := (cudaSuccess, 364444704444444441, 364444704444444441)\<rparr>)
         [''cudaMemTest'', ''--device=0'', ''--alloc_mem_gb=328000234'']
       = 328000234000000000
   \<and> take 3 (runtime_calls (fst (main
         (scenario_runtime\<lparr>rt_cudaMemGetInfo := (cudaSuccess, 364444704444444441, 364444704444444441)\<rparr>)
         [''cudaMemTest'', ''--device=0'', ''--alloc_mem_gb=328000234''])))
       = [Call_cudaSetDevice 0, Call_cudaMemGetInfo, Call_cudaMalloc 328000234000000000]"
proof -
  let ?argv = "[''cudaMemTest'', ''--device=0'', ''--alloc_mem_gb=328000234'']"
  let ?rt = "scenario_runtime\<lparr>rt_cudaMemGetInfo := (cudaSuccess, 364444704444444441, 364444704444444441)\<rparr>"
  have flags: "checkCmdLineFlag ?argv ''alloc_mem_gb''"
    "getCmdLineArgumentInt ?argv ''alloc_mem_gb'' = 328000234"
    "\<not> help_requested ?argv" "checkCmdLineFlag ?argv ''device''"
    "getCmdLineArgumentInt ?argv ''device'' = 0"
    by (simp_all add: help_requested_def lexer_defs)
  have gb: "requested_gb ?argv = 328000234"
    by (simp add: requested_gb_def flags ALLOC_MEM_OPT_STR_def)
  have ceiling: "max_alloc_size_of 364444704444444441 = 328000234000000001"
    by (simp add: max_alloc_size_of_def tenth_of_large)
  have requested: "snd (requested_size_of ?argv) = 328000234000000000"
    by (simp add: requested_size_of_gb gb)
  have size: "allocation_size ?rt ?argv = 328000234000000000"
    by (simp add: allocation_size_def requested snd_clamp_size ceiling)
  have sel: "device_selected ?rt ?argv"
    by (simp add: device_selected_def device_requested_def flags scenario_runtime_def)
  have calls: "take 3 (runtime_calls (fst (main ?rt ?argv))) =
      [Call_cudaSetDevice 0, Call_cudaMemGetInfo, Call_cudaMalloc 328000234000000000]"
    using main_selected_calls [OF sel] by (simp only: size flags)
  have "(0 :: 64 word) < 364444704444444441"
    by simp
  moreover have "9 * int (unat (364444704444444441 :: 64 word)) < 10 * (328000234 * 1000000000)"
    by simp
  moreover have "unat (364444704444444441 :: 64 word) - unat (364444704444444441 :: 64 word) div 10
      = 328000233999999997"
    by simp
  ultimately show ?thesis
    using gb ceiling size calls by blast
qed

end
